theory Spec2Isabelle
  imports Main
begin

section \<open>Enveloped XML signature of the NFS-e signer (signer.py)\<close>

text \<open>
  The development embeds \<^verbatim>\<open>assinar_xml\<close> of \<^verbatim>\<open>signer.py\<close>. The function is one
  straight-line body in nine numbered steps; each step that can raise is a
  branch of the model returning \<open>Inl\<close>.

  Conventions.
  \<^item> A Python \<^verbatim>\<open>bytes\<close> value is a \<open>char list\<close>. A Python \<^verbatim>\<open>str\<close> is modelled
    by its UTF-8 bytes, so \<^verbatim>\<open>.encode()\<close> and \<^verbatim>\<open>.decode()\<close> are the identity.
  \<^item> The optional \<^verbatim>\<open>logger\<close> only records messages and is left out.
  \<^item> What \<^verbatim>\<open>lxml\<close>, \<^verbatim>\<open>cryptography\<close>, \<^verbatim>\<open>hashlib\<close>, \<^verbatim>\<open>base64\<close> and the file
    system compute on bytes is not code of the repository: those functions
    are the fields of an environment record \<open>env\<close> that every operation
    takes as its first argument. The tree operations of \<^verbatim>\<open>lxml\<close> that the
    claims are about (child search, attribute lookup, element construction,
    sibling insertion) are defined here on an element datatype.
\<close>

subsection \<open>Data model\<close>

type_synonym bytes = "char list"

text \<open>
  Exceptions that can leave \<^verbatim>\<open>assinar_xml\<close>. The source itself raises only
  \<^verbatim>\<open>ValueError\<close> (lines 55, 79 and 86); the other constructors stand for what the
  libraries raise.
\<close>

datatype error =
    ValueError string
  | TypeError string
  | SyntaxError string
  | XMLSyntaxError string
  | OSError string

text \<open>
  An \<^verbatim>\<open>lxml\<close> node. The tag of an element is its name in Clark notation
  (\<^verbatim>\<open>{uri}local\<close>); comments, processing instructions and entity references are
  nodes of the same tree whose tag is not a name. \<open>nsmap\<close> holds the namespace
  declarations written on the node itself (prefix \<open>None\<close> is the default
  namespace); \<open>elem_text\<close> and \<open>elem_tail\<close> are \<^verbatim>\<open>.text\<close> and \<^verbatim>\<open>.tail\<close>.
\<close>

datatype node_tag = QName string | Comment | ProcessingInstruction | Entity

type_synonym ns_decls = "(string option \<times> string) list"

datatype element =
  Element (tag: node_tag) (attrib: "(string \<times> string) list") (nsmap: ns_decls)
    (elem_text: "string option") (children: "element list") (elem_tail: "string option")

text \<open>The keyword arguments of \<^verbatim>\<open>ET.tostring\<close> that the source uses.\<close>

datatype output_method =
    Xml (xml_declaration: bool) (pretty_print: bool)
  | C14N (exclusive: bool) (with_comments: bool)

text \<open>
  The external functions. \<open>tostring ctx e m\<close> is \<^verbatim>\<open>ET.tostring(e, ...)\<close> for a node
  \<open>e\<close> whose ancestors declare the namespaces \<open>ctx\<close> (\<^verbatim>\<open>lxml\<close> writes the
  declarations in scope onto a serialised sub-element); \<open>sign k d\<close> is
  \<^verbatim>\<open>k.sign(d, padding.PKCS1v15(), hashes.SHA1())\<close>.
\<close>

record ('key, 'cert) env =
  read_file :: "string \<Rightarrow> error + bytes"
  load_key_and_certificates ::
    "bytes \<Rightarrow> bytes option \<Rightarrow> error + ('key option \<times> 'cert option \<times> 'cert list)"
  public_bytes_DER :: "'cert \<Rightarrow> bytes"
  b64encode :: "bytes \<Rightarrow> bytes"
  sha1 :: "bytes \<Rightarrow> bytes"
  fromstring :: "bytes \<Rightarrow> error + element"
  tostring :: "ns_decls \<Rightarrow> element \<Rightarrow> output_method \<Rightarrow> bytes"
  sign :: "'key \<Rightarrow> bytes \<Rightarrow> error + bytes"

datatype xml_input = Str string | Bytes bytes

subsection \<open>Constants of the module\<close>

definition NS_NFSE :: string where
  "NS_NFSE = ''http://www.sped.fazenda.gov.br/nfse''"

definition NS_DS :: string where
  "NS_DS = ''http://www.w3.org/2000/09/xmldsig#''"

definition ns_nfse :: "(string \<times> string) list" where
  "ns_nfse = [(''ns'', NS_NFSE)]"

definition clark :: "string \<Rightarrow> string \<Rightarrow> node_tag" where
  "clark uri name = QName (''{'' @ uri @ ''}'' @ name)"

text \<open>\<^verbatim>\<open>"{%s}name" % NS_DS\<close>\<close>

definition ds :: "string \<Rightarrow> node_tag" where
  "ds name = clark NS_DS name"

definition ALG_C14N :: string where
  "ALG_C14N = ''http://www.w3.org/TR/2001/REC-xml-c14n-20010315''"

definition ALG_RSA_SHA1 :: string where
  "ALG_RSA_SHA1 = ''http://www.w3.org/2000/09/xmldsig#rsa-sha1''"

definition ALG_ENVELOPED :: string where
  "ALG_ENVELOPED = ''http://www.w3.org/2000/09/xmldsig#enveloped-signature''"

definition ALG_SHA1 :: string where
  "ALG_SHA1 = ''http://www.w3.org/2000/09/xmldsig#sha1''"

text \<open>The three messages of the source's own \<^verbatim>\<open>raise ValueError\<close> (UTF-8 bytes).\<close>

definition msg_pfx_invalido :: string where
  "msg_pfx_invalido =
     ''PFX inv'' @ [CHR 0xC3, CHR 0xA1] @ ''lido: sem chave privada ou certificado.''"

definition msg_nao_encontrado :: "string \<Rightarrow> string" where
  "msg_nao_encontrado tag_to_sign =
     ''Elemento <'' @ tag_to_sign @ ''> n'' @ [CHR 0xC3, CHR 0xA3] @ ''o encontrado.''"

definition msg_id_ausente :: "string \<Rightarrow> string" where
  "msg_id_ausente tag_to_sign = ''Atributo Id ausente em <'' @ tag_to_sign @ ''>.''"

subsection \<open>Tree operations of lxml\<close>

text \<open>
  \<^verbatim>\<open>elem.find(path, namespaces)\<close> for a path that is one name step. ElementPath
  reads \<^verbatim>\<open>prefix:local\<close> as one token, replaces the prefix of a name that does
  not start with a brace through \<^verbatim>\<open>namespaces\<close> (an unknown prefix raises
  \<^verbatim>\<open>SyntaxError\<close>) and returns the first \<^emph>\<open>child\<close> of \<^verbatim>\<open>elem\<close> with that name, or
  \<^verbatim>\<open>None\<close>; the step \<^verbatim>\<open>name\<close> selects among \<^verbatim>\<open>elem.iterchildren(name)\<close> and
  descends no further. The result is the position of the child under \<^verbatim>\<open>elem\<close>,
  which is how the model refers to a node of the tree.

  The path is one name step when the tokenizer reads it as one token that is
  a name. The tokenizer splits at \<^verbatim>\<open>/ [ ] ( ) @ ! =\<close> and at everything Python's
  white-space class matches (for a \<^verbatim>\<open>str\<close> pattern that is the six ASCII blanks,
  the separators 0x1C to 0x1F and the Unicode spaces), and \<^verbatim>\<open>iterchildren\<close> reads
  \<^verbatim>\<open>*\<close> and braces in a name as wildcards. \<open>plain_tag\<close> says of the tag the
  source puts behind \<^verbatim>\<open>ns:\<close> that it is an XML name written in ASCII: a letter
  or an underscore, followed by letters, digits, underscores, hyphens and full
  stops. No such character is syntax or white space, so \<^verbatim>\<open>ns:tag\<close> is one name
  step. The callers pass \<^verbatim>\<open>infDPS\<close> and \<^verbatim>\<open>infPedReg\<close>.
\<close>

definition name_start_chars :: "char list" where
  "name_start_chars = ''ABCDEFGHIJKLMNOPQRSTUVWXYZabcdefghijklmnopqrstuvwxyz_''"

definition name_chars :: "char list" where
  "name_chars = name_start_chars @ ''0123456789-.''"

definition plain_tag :: "string \<Rightarrow> bool" where
  "plain_tag t \<longleftrightarrow>
     (case t of
        [] \<Rightarrow> False
      | c # cs \<Rightarrow> c \<in> set name_start_chars \<and> list_all (\<lambda>d. d \<in> set name_chars) cs)"

definition resolve_step :: "string \<Rightarrow> (string \<times> string) list \<Rightarrow> error + node_tag" where
  "resolve_step path namespaces =
     (if path \<noteq> [] \<and> hd path \<noteq> CHR ''{'' \<and> CHR '':'' \<in> set path then
        (case map_of namespaces (takeWhile (\<lambda>c. c \<noteq> CHR '':'') path) of
           None \<Rightarrow> Inl (SyntaxError ''prefix not found in prefix map'')
         | Some uri \<Rightarrow> Inr (clark uri (tl (dropWhile (\<lambda>c. c \<noteq> CHR '':'') path))))
      else Inr (QName path))"

fun first_child :: "node_tag \<Rightarrow> element list \<Rightarrow> nat option" where
  "first_child q [] = None"
| "first_child q (c # cs) =
     (if tag c = q then Some 0 else map_option Suc (first_child q cs))"

definition element_find ::
  "element \<Rightarrow> string \<Rightarrow> (string \<times> string) list \<Rightarrow> error + nat option" where
  "element_find elem path namespaces =
     (case resolve_step path namespaces of
        Inl e \<Rightarrow> Inl e
      | Inr q \<Rightarrow> Inr (first_child q (children elem)))"

text \<open>\<^verbatim>\<open>elem.findall(name)\<close>: all children with the name, in document order.\<close>

definition findall :: "element \<Rightarrow> node_tag \<Rightarrow> element list" where
  "findall elem q = filter (\<lambda>c. tag c = q) (children elem)"

text \<open>\<^verbatim>\<open>elem.iterdescendants()\<close>: every node below \<^verbatim>\<open>elem\<close>, in document order.\<close>

fun iterdescendants :: "element \<Rightarrow> element list" where
  "iterdescendants (Element t a n x cs l) =
     concat (map (\<lambda>c. c # iterdescendants c) cs)"

text \<open>\<^verbatim>\<open>elem.get(key)\<close>\<close>

definition element_get :: "element \<Rightarrow> string \<Rightarrow> string option" where
  "element_get elem key = map_of (attrib elem) key"

text \<open>
  \<^verbatim>\<open>ET.Element(tag, nsmap=...)\<close> and \<^verbatim>\<open>ET.SubElement(parent, tag, **attrs)\<close>
  followed by the \<^verbatim>\<open>.text\<close> assignment where the source makes one. The source
  grows the tree from the top by appending; the model writes each element with
  its children in the order in which the source appends them.
\<close>

definition SubElement ::
  "node_tag \<Rightarrow> (string \<times> string) list \<Rightarrow> string option \<Rightarrow> element list \<Rightarrow> element" where
  "SubElement t attrs txt cs = Element t attrs [] txt cs None"

text \<open>
  \<^verbatim>\<open>target.addnext(new)\<close> for the \<open>i\<close>-th child \<^verbatim>\<open>target\<close> of \<open>parent\<close>: \<^verbatim>\<open>new\<close>
  becomes the child at position \<open>i + 1\<close>, after the tail text of \<^verbatim>\<open>target\<close>,
  which stays with \<^verbatim>\<open>target\<close>.
\<close>

fun addnext :: "element \<Rightarrow> nat \<Rightarrow> element \<Rightarrow> element" where
  "addnext (Element t a n x cs l) i new =
     Element t a n x (take (Suc i) cs @ new # drop (Suc i) cs) l"

subsection \<open>The steps of \<open>assinar_xml\<close>\<close>

text \<open>
  Line 48: \<^verbatim>\<open>pfx_password.encode() if pfx_password else None\<close>. The parameter is
  annotated \<^verbatim>\<open>str\<close>; \<^verbatim>\<open>None\<close> is falsy as well and takes the same branch.
\<close>

definition pkcs12_password :: "string option \<Rightarrow> bytes option" where
  "pkcs12_password pfx_password =
     (case pfx_password of
        None \<Rightarrow> None
      | Some s \<Rightarrow> (if s = [] then None else Some s))"

text \<open>Step 1, lines 45-55.\<close>

definition load_credential ::
  "('key, 'cert) env \<Rightarrow> string \<Rightarrow> string option \<Rightarrow> error + ('key \<times> 'cert)" where
  "load_credential env pfx_path pfx_password =
     (case read_file env pfx_path of
        Inl e \<Rightarrow> Inl e
      | Inr pfx_data \<Rightarrow>
          (case load_key_and_certificates env pfx_data (pkcs12_password pfx_password) of
             Inl e \<Rightarrow> Inl e
           | Inr (private_key, certificate, additional_certs) \<Rightarrow>
               (case private_key of
                  None \<Rightarrow> Inl (ValueError msg_pfx_invalido)
                | Some k \<Rightarrow>
                    (case certificate of
                       None \<Rightarrow> Inl (ValueError msg_pfx_invalido)
                     | Some c \<Rightarrow> Inr (k, c)))))"

text \<open>Step 2, lines 63-66.\<close>

fun xml_bytes :: "xml_input \<Rightarrow> bytes" where
  "xml_bytes (Bytes b) = b"
| "xml_bytes (Str s) = s"

text \<open>Step 3, lines 74-86. \<^verbatim>\<open>not inf_id\<close> holds for \<^verbatim>\<open>None\<close> and for the empty string.\<close>

definition locate :: "element \<Rightarrow> string \<Rightarrow> error + (nat \<times> string)" where
  "locate root tag_to_sign =
     (case element_find root (''ns:'' @ tag_to_sign) ns_nfse of
        Inl e \<Rightarrow> Inl e
      | Inr None \<Rightarrow> Inl (ValueError (msg_nao_encontrado tag_to_sign))
      | Inr (Some i) \<Rightarrow>
          (case element_get (children root ! i) ''Id'' of
             None \<Rightarrow> Inl (ValueError (msg_id_ausente tag_to_sign))
           | Some inf_id \<Rightarrow>
               (if inf_id = [] then Inl (ValueError (msg_id_ausente tag_to_sign))
                else Inr (i, inf_id))))"

text \<open>
  Lines 95-101 and again lines 148-152: the element is serialised, the bytes
  are parsed into a document of their own, and that document is canonicalised
  with \<^verbatim>\<open>method="c14n", exclusive=False, with_comments=False\<close>.
\<close>

definition canonical_bytes ::
  "('key, 'cert) env \<Rightarrow> ns_decls \<Rightarrow> element \<Rightarrow> error + bytes" where
  "canonical_bytes env ctx elem =
     (case fromstring env (tostring env ctx elem (Xml False False)) of
        Inl e \<Rightarrow> Inl e
      | Inr copy \<Rightarrow> Inr (tostring env [] copy (C14N False False)))"

text \<open>Step 5, lines 113-142.\<close>

definition Transforms_element :: element where
  "Transforms_element =
     SubElement (ds ''Transforms'') [] None
       [SubElement (ds ''Transform'') [(''Algorithm'', ALG_ENVELOPED)] None [],
        SubElement (ds ''Transform'') [(''Algorithm'', ALG_C14N)] None []]"

definition Reference_element :: "string \<Rightarrow> string \<Rightarrow> element" where
  "Reference_element inf_id digest_b64 =
     SubElement (ds ''Reference'') [(''URI'', ''#'' @ inf_id)] None
       [Transforms_element,
        SubElement (ds ''DigestMethod'') [(''Algorithm'', ALG_SHA1)] None [],
        SubElement (ds ''DigestValue'') [] (Some digest_b64) []]"

definition SignedInfo_element :: "string \<Rightarrow> string \<Rightarrow> element" where
  "SignedInfo_element inf_id digest_b64 =
     SubElement (ds ''SignedInfo'') [] None
       [SubElement (ds ''CanonicalizationMethod'') [(''Algorithm'', ALG_C14N)] None [],
        SubElement (ds ''SignatureMethod'') [(''Algorithm'', ALG_RSA_SHA1)] None [],
        Reference_element inf_id digest_b64]"

text \<open>Step 7, lines 161-165.\<close>

definition KeyInfo_element :: "string \<Rightarrow> element" where
  "KeyInfo_element cert_b64 =
     SubElement (ds ''KeyInfo'') [] None
       [SubElement (ds ''X509Data'') [] None
          [SubElement (ds ''X509Certificate'') [] (Some cert_b64) []]]"

text \<open>Line 111 with the children appended at lines 113, 161 and 163.\<close>

definition Signature_element :: "element list \<Rightarrow> element" where
  "Signature_element cs = Element (ds ''Signature'') [] [(None, NS_DS)] None cs None"

text \<open>
  Steps 1 to 8: the document tree after \<^verbatim>\<open>target_element.addnext(Signature)\<close>.
  When line 148 serialises \<^verbatim>\<open>SignedInfo\<close> its only ancestor is \<^verbatim>\<open>Signature\<close>, so
  the declarations in scope are those of line 110.
\<close>

definition signed_tree ::
  "('key, 'cert) env \<Rightarrow> xml_input \<Rightarrow> string \<Rightarrow> string option \<Rightarrow> string \<Rightarrow> error + element"
where
  "signed_tree env xml_in pfx_path pfx_password tag_to_sign =
     (case load_credential env pfx_path pfx_password of
        Inl e \<Rightarrow> Inl e
      | Inr (private_key, certificate) \<Rightarrow>
          (let cert_b64 = b64encode env (public_bytes_DER env certificate) in
           case fromstring env (xml_bytes xml_in) of
             Inl e \<Rightarrow> Inl e
           | Inr root \<Rightarrow>
               (case locate root tag_to_sign of
                  Inl e \<Rightarrow> Inl e
                | Inr (i, inf_id) \<Rightarrow>
                    (case canonical_bytes env (nsmap root) (children root ! i) of
                       Inl e \<Rightarrow> Inl e
                     | Inr target_c14n \<Rightarrow>
                         (let digest_b64 = b64encode env (sha1 env target_c14n);
                              SignedInfo = SignedInfo_element inf_id digest_b64
                          in case canonical_bytes env [(None, NS_DS)] SignedInfo of
                               Inl e \<Rightarrow> Inl e
                             | Inr c14n_signed \<Rightarrow>
                                 (case sign env private_key c14n_signed of
                                    Inl e \<Rightarrow> Inl e
                                  | Inr signature_raw \<Rightarrow>
                                      Inr (addnext root i
                                        (Signature_element
                                          [SignedInfo,
                                           SubElement (ds ''SignatureValue'') []
                                             (Some (b64encode env signature_raw)) [],
                                           KeyInfo_element cert_b64]))))))))"

text \<open>Step 9, lines 174-180.\<close>

definition assinar_xml ::
  "('key, 'cert) env \<Rightarrow> xml_input \<Rightarrow> string \<Rightarrow> string option \<Rightarrow> string \<Rightarrow> error + string"
where
  "assinar_xml env xml_in pfx_path pfx_password tag_to_sign =
     (case signed_tree env xml_in pfx_path pfx_password tag_to_sign of
        Inl e \<Rightarrow> Inl e
      | Inr root \<Rightarrow> Inr (tostring env [] root (Xml True False)))"

subsection \<open>Observations on a tree\<close>

text \<open>
  \<^verbatim>\<open>elem.findall("a/b/c")\<close> for a path of name steps, and \<^verbatim>\<open>target.getnext()\<close> for
  the \<open>i\<close>-th child of \<open>parent\<close>: the sibling that follows it, if there is one.
\<close>

fun findall_path :: "element \<Rightarrow> node_tag list \<Rightarrow> element list" where
  "findall_path elem [] = [elem]"
| "findall_path elem (q # qs) = concat (map (\<lambda>c. findall_path c qs) (findall elem q))"

definition getnext :: "element \<Rightarrow> nat \<Rightarrow> element option" where
  "getnext parent i =
     (if Suc i < length (children parent) then Some (children parent ! Suc i) else None)"

subsection \<open>An example library and example documents\<close>

text \<open>
  A small instance of the environment on which the operations can be
  evaluated: two kinds of private key as \<^verbatim>\<open>cryptography\<close> returns them, a file
  system with five PKCS#12 files, a parser that knows five documents, and
  serialisers that write the name of the element only. The RSA key signs; the
  elliptic-curve key's \<^verbatim>\<open>sign\<close> takes two arguments, so the call of line 154
  with three raises \<^verbatim>\<open>TypeError\<close>.
\<close>

datatype private_key = RSAPrivateKey nat | EllipticCurvePrivateKey nat

definition example_target :: element where
  "example_target =
     Element (clark NS_NFSE ''infDPS'') [(''Id'', ''DPS35a7B'')] [] None
       [Element (clark NS_NFSE ''tpAmb'') [] [] (Some ''2'') [] None] (Some [CHR 0x0A])"

definition example_root :: element where
  "example_root =
     Element (clark NS_NFSE ''DPS'') [(''versao'', ''1.00'')] [(None, NS_NFSE)] None
       [Element Comment [] [] (Some ''lote 1'') [] None,
        example_target,
        Element (clark NS_NFSE ''obs'') [] [] None [] None] None"

definition nested_root :: element where
  "nested_root =
     Element (clark NS_NFSE ''DPS'') [] [(None, NS_NFSE)] None
       [Element (clark NS_NFSE ''lote'') [] [] None [example_target] None] None"

definition no_match_root :: element where
  "no_match_root =
     Element (clark NS_NFSE ''DPS'') [] [(None, NS_NFSE)] None
       [Element (QName ''infDPS'') [(''Id'', ''DPS35a7B'')] [(None, [])] None [] None] None"

definition no_id_root :: element where
  "no_id_root =
     Element (clark NS_NFSE ''DPS'') [] [(None, NS_NFSE)] None
       [Element (clark NS_NFSE ''infDPS'') [(''versao'', ''1.00'')] [] None [] None] None"

definition empty_id_root :: element where
  "empty_id_root =
     Element (clark NS_NFSE ''DPS'') [] [(None, NS_NFSE)] None
       [Element (clark NS_NFSE ''infDPS'') [(''Id'', [])] [] None [] None] None"

definition example_documents :: "(bytes \<times> element) list" where
  "example_documents =
     [(''<DPS>'', example_root), (''<nested>'', nested_root), (''<no-match>'', no_match_root),
      (''<no-id>'', no_id_root), (''<empty-id>'', empty_id_root)]"

definition example_files :: "(string \<times> bytes) list" where
  "example_files =
     [(''rsa.pfx'', ''PFX-RSA''), (''ec.pfx'', ''PFX-EC''), (''empty.pfx'', []),
      (''no-key.pfx'', ''PFX-NO-KEY''), (''no-cert.pfx'', ''PFX-NO-CERT'')]"

definition example_name :: "element \<Rightarrow> string" where
  "example_name elem = (case tag elem of QName q \<Rightarrow> q | _ \<Rightarrow> [])"

definition example_env :: "(private_key, nat) env" where
  "example_env =
     \<lparr> read_file = (\<lambda>path. case map_of example_files path of
                        None \<Rightarrow> Inl (OSError ''No such file or directory'')
                      | Some data \<Rightarrow> Inr data),
       load_key_and_certificates = (\<lambda>data password.
          if data = ''PFX-RSA'' then
            (if password = Some ''segredo'' then Inr (Some (RSAPrivateKey 7), Some 1, [])
             else Inl (ValueError ''Invalid password or PKCS12 data''))
          else if data = ''PFX-EC'' then Inr (Some (EllipticCurvePrivateKey 3), Some 2, [])
          else if data = ''PFX-NO-KEY'' then Inr (None, Some 1, [])
          else if data = ''PFX-NO-CERT'' then Inr (Some (RSAPrivateKey 7), None, [])
          else Inl (ValueError ''Could not deserialize PKCS12 data'')),
       public_bytes_DER = (\<lambda>cert. ''DER'' @ replicate cert CHR ''I''),
       b64encode = (\<lambda>b. ''b64('' @ b @ '')''),
       sha1 = (\<lambda>b. ''sha1('' @ b @ '')''),
       fromstring = (\<lambda>b. case map_of example_documents b of
                        Some root \<Rightarrow> Inr root
                      | None \<Rightarrow>
                          (if take 1 b = ''<'' then Inr (Element (QName (drop 1 b)) [] [] None [] None)
                           else Inl (XMLSyntaxError ''Start tag expected''))),
       tostring = (\<lambda>ctx elem m. case m of
                        Xml decl pretty \<Rightarrow> (if decl then ''<?xml?>'' else []) @ ''<'' @ example_name elem
                      | C14N excl comments \<Rightarrow> ''c14n:'' @ example_name elem),
       sign = (\<lambda>key data. case key of
                        RSAPrivateKey d \<Rightarrow> Inr (''rsa('' @ data @ '')'')
                      | EllipticCurvePrivateKey d \<Rightarrow>
                          Inl (TypeError ''sign() takes 3 positional arguments but 4 were given'')) \<rparr>"

definition example_signature :: element where
  "example_signature =
     Signature_element
       [SignedInfo_element ''DPS35a7B''
          ''b64(sha1(c14n:{http://www.sped.fazenda.gov.br/nfse}infDPS))'',
        SubElement (ds ''SignatureValue'') []
          (Some ''b64(rsa(c14n:{http://www.w3.org/2000/09/xmldsig#}SignedInfo))'') [],
        KeyInfo_element ''b64(DERI)'']"

definition example_signed :: element where
  "example_signed = addnext example_root 1 example_signature"

subsection \<open>An example library that writes the documents out\<close>

text \<open>
  A second instance, with the same files and keys, whose serialisers write the
  text of a tree: start tags with the namespace declarations and attributes,
  text, children, end tags and tail text, as \<^verbatim>\<open>lxml\<close> writes the documents below
  (every element is in the default namespace in scope, no text needs
  escaping, attribute lists are in canonical order). A serialised sub-element
  carries the declarations of its ancestors and its own tail; the canonical
  form has neither the tail of the top element nor comments, and no empty-element
  tags. The digest and the signature are short stand-ins made of letters.
\<close>

definition local_name :: "string \<Rightarrow> string" where
  "local_name q =
     (if q \<noteq> [] \<and> hd q = CHR ''{'' then tl (dropWhile (\<lambda>c. c \<noteq> CHR ''}'') q) else q)"

definition quoted :: "string \<Rightarrow> string" where
  "quoted s = [CHR 0x22] @ s @ [CHR 0x22]"

definition write_decl :: "string option \<times> string \<Rightarrow> string" where
  "write_decl d =
     (case d of
        (None, uri) \<Rightarrow> '' xmlns='' @ quoted uri
      | (Some p, uri) \<Rightarrow> '' xmlns:'' @ p @ ''='' @ quoted uri)"

definition write_attr :: "string \<times> string \<Rightarrow> string" where
  "write_attr a = (case a of (k, v) \<Rightarrow> '' '' @ k @ ''='' @ quoted v)"

definition opt_text :: "string option \<Rightarrow> string" where
  "opt_text x = (case x of None \<Rightarrow> [] | Some s \<Rightarrow> s)"

fun write_xml :: "element \<Rightarrow> string" where
  "write_xml (Element t a n x cs l) =
     (case t of
        QName q \<Rightarrow>
          ''<'' @ local_name q @ concat (map write_decl n) @ concat (map write_attr a) @
          (if x = None \<and> cs = [] then ''/>''
           else ''>'' @ opt_text x @ concat (map write_xml cs) @ ''</'' @ local_name q @ ''>'')
      | Comment \<Rightarrow> ''<!--'' @ opt_text x @ ''-->''
      | ProcessingInstruction \<Rightarrow> ''<?'' @ opt_text x @ ''?>''
      | Entity \<Rightarrow> ''&'' @ opt_text x @ '';'') @
     opt_text l"

fun write_c14n :: "bool \<Rightarrow> element \<Rightarrow> string" where
  "write_c14n comments (Element t a n x cs l) =
     (case t of
        QName q \<Rightarrow>
          ''<'' @ local_name q @ concat (map write_decl n) @ concat (map write_attr a) @ ''>'' @
          opt_text x @ concat (map (write_c14n comments) cs) @ ''</'' @ local_name q @ ''>''
      | Comment \<Rightarrow> (if comments then ''<!--'' @ opt_text x @ ''-->'' else [])
      | ProcessingInstruction \<Rightarrow> ''<?'' @ opt_text x @ ''?>''
      | Entity \<Rightarrow> []) @
     opt_text l"

fun in_context :: "ns_decls \<Rightarrow> element \<Rightarrow> element" where
  "in_context ctx (Element t a n x cs l) =
     Element t a (filter (\<lambda>d. fst d \<notin> set (map fst n)) ctx @ n) x cs l"

fun without_tail :: "element \<Rightarrow> element" where
  "without_tail (Element t a n x cs l) = Element t a n x cs None"

definition xml_declaration_text :: string where
  "xml_declaration_text = ''<?xml version='1.0' encoding='utf-8'?>'' @ [CHR 0x0A]"

definition written_tostring :: "ns_decls \<Rightarrow> element \<Rightarrow> output_method \<Rightarrow> bytes" where
  "written_tostring ctx elem m =
     (case m of
        Xml decl pretty \<Rightarrow>
          (if decl then xml_declaration_text else []) @ write_xml (in_context ctx elem)
      | C14N excl comments \<Rightarrow> write_c14n comments (without_tail (in_context ctx elem)))"

definition letters_of :: "bytes \<Rightarrow> bytes" where
  "letters_of b = filter (\<lambda>c. c \<in> set name_start_chars) b"

definition written_sha1 :: "bytes \<Rightarrow> bytes" where
  "written_sha1 b = take 20 (rev (letters_of b))"

definition written_sign :: "private_key \<Rightarrow> bytes \<Rightarrow> error + bytes" where
  "written_sign key data =
     (case key of
        RSAPrivateKey d \<Rightarrow> Inr (take 16 (letters_of data))
      | EllipticCurvePrivateKey d \<Rightarrow>
          Inl (TypeError ''sign() takes 3 positional arguments but 4 were given''))"

text \<open>
  The documents as bytes. \<open>written_document\<close> is the input; the target has a line
  break after it. \<open>written_target_text\<close> and \<open>written_signedinfo_text\<close> are what
  lines 95 and 148 serialise, \<open>written_target_c14n\<close> and \<open>written_signedinfo_c14n\<close>
  the canonical bytes of lines 96 and 150, and \<open>written_output\<close> is the signed
  document of line 174. \<open>tail_text_document\<close> is a well-formed document whose
  target is followed by text, and \<open>tail_text_target_text\<close> what line 95 serialises
  for it.
\<close>

definition written_document :: bytes where
  \<open>written_document =
     ''<DPS xmlns="http://www.sped.fazenda.gov.br/nfse" versao="1.00"><!--lote '' @
     ''1--><infDPS Id="DPS35a7B"><tpAmb>2</tpAmb></infDPS>'' @
     [CHR 0x0A] @
     ''<obs/></DPS>''\<close>

definition written_target_text :: bytes where
  \<open>written_target_text =
     ''<infDPS xmlns="http://www.sped.fazenda.gov.br/nfse" Id="DPS35a7B"><tpAmb'' @
     ''>2</tpAmb></infDPS>'' @
     [CHR 0x0A]\<close>

definition written_target_c14n :: bytes where
  \<open>written_target_c14n =
     ''<infDPS xmlns="http://www.sped.fazenda.gov.br/nfse" Id="DPS35a7B"><tpAmb'' @
     ''>2</tpAmb></infDPS>''\<close>

definition written_digest :: bytes where
  \<open>written_digest =
     ''b64(SPDfnibmAptbmAptBaSP)''\<close>

definition written_signedinfo_text :: bytes where
  \<open>written_signedinfo_text =
     ''<SignedInfo xmlns="http://www.w3.org/2000/09/xmldsig#"><Canonicalization'' @
     ''Method Algorithm="http://www.w3.org/TR/2001/REC-xml-c14n-20010315"/><Sig'' @
     ''natureMethod Algorithm="http://www.w3.org/2000/09/xmldsig#rsa-sha1"/><Re'' @
     ''ference URI="#DPS35a7B"><Transforms><Transform Algorithm="http://www.w3.'' @
     ''org/2000/09/xmldsig#enveloped-signature"/><Transform Algorithm="http://w'' @
     ''ww.w3.org/TR/2001/REC-xml-c14n-20010315"/></Transforms><DigestMethod Alg'' @
     ''orithm="http://www.w3.org/2000/09/xmldsig#sha1"/><DigestValue>b64(SPDfni'' @
     ''bmAptbmAptBaSP)</DigestValue></Reference></SignedInfo>''\<close>

definition written_signedinfo_c14n :: bytes where
  \<open>written_signedinfo_c14n =
     ''<SignedInfo xmlns="http://www.w3.org/2000/09/xmldsig#"><Canonicalization'' @
     ''Method Algorithm="http://www.w3.org/TR/2001/REC-xml-c14n-20010315"></Can'' @
     ''onicalizationMethod><SignatureMethod Algorithm="http://www.w3.org/2000/0'' @
     ''9/xmldsig#rsa-sha1"></SignatureMethod><Reference URI="#DPS35a7B"><Transf'' @
     ''orms><Transform Algorithm="http://www.w3.org/2000/09/xmldsig#enveloped-s'' @
     ''ignature"></Transform><Transform Algorithm="http://www.w3.org/TR/2001/RE'' @
     ''C-xml-c14n-20010315"></Transform></Transforms><DigestMethod Algorithm="h'' @
     ''ttp://www.w3.org/2000/09/xmldsig#sha1"></DigestMethod><DigestValue>b64(S'' @
     ''PDfnibmAptbmAptBaSP)</DigestValue></Reference></SignedInfo>''\<close>

definition written_signature_value :: bytes where
  \<open>written_signature_value =
     ''b64(SignedInfoxmlnsh)''\<close>

definition written_output :: bytes where
  \<open>written_output =
     ''<?xml version='1.0' encoding='utf-8'?>'' @
     [CHR 0x0A] @
     ''<DPS xmlns="http://www.sped.fazenda.gov.br/nfse" versao="1.00"><!--lote '' @
     ''1--><infDPS Id="DPS35a7B"><tpAmb>2</tpAmb></infDPS>'' @
     [CHR 0x0A] @
     ''<Signature xmlns="http://www.w3.org/2000/09/xmldsig#"><SignedInfo><Canon'' @
     ''icalizationMethod Algorithm="http://www.w3.org/TR/2001/REC-xml-c14n-2001'' @
     ''0315"/><SignatureMethod Algorithm="http://www.w3.org/2000/09/xmldsig#rsa'' @
     ''-sha1"/><Reference URI="#DPS35a7B"><Transforms><Transform Algorithm="htt'' @
     ''p://www.w3.org/2000/09/xmldsig#enveloped-signature"/><Transform Algorith'' @
     ''m="http://www.w3.org/TR/2001/REC-xml-c14n-20010315"/></Transforms><Diges'' @
     ''tMethod Algorithm="http://www.w3.org/2000/09/xmldsig#sha1"/><DigestValue'' @
     ''>b64(SPDfnibmAptbmAptBaSP)</DigestValue></Reference></SignedInfo><Signat'' @
     ''ureValue>b64(SignedInfoxmlnsh)</SignatureValue><KeyInfo><X509Data><X509C'' @
     ''ertificate>b64(DERI)</X509Certificate></X509Data></KeyInfo></Signature><'' @
     ''obs/></DPS>''\<close>

definition tail_text_document :: bytes where
  \<open>tail_text_document =
     ''<DPS xmlns="http://www.sped.fazenda.gov.br/nfse" versao="1.00"><infDPS I'' @
     ''d="DPS35a7B"><tpAmb>2</tpAmb></infDPS>texto</DPS>''\<close>

definition tail_text_target_text :: bytes where
  \<open>tail_text_target_text =
     ''<infDPS xmlns="http://www.sped.fazenda.gov.br/nfse" Id="DPS35a7B"><tpAmb'' @
     ''>2</tpAmb></infDPS>texto''\<close>

text \<open>
  The trees of these documents, and the parser as the table of what
  \<^verbatim>\<open>ET.fromstring\<close> returns for each of the byte strings: white space after the
  root element is dropped, text after it is an error.
\<close>

definition written_copy :: element where
  "written_copy =
     Element (clark NS_NFSE ''infDPS'') [(''Id'', ''DPS35a7B'')] [(None, NS_NFSE)] None
       [Element (clark NS_NFSE ''tpAmb'') [] [] (Some ''2'') [] None] None"

definition written_signature :: element where
  "written_signature =
     Signature_element
       [SignedInfo_element ''DPS35a7B'' written_digest,
        SubElement (ds ''SignatureValue'') [] (Some written_signature_value) [],
        KeyInfo_element ''b64(DERI)'']"

definition written_signed :: element where
  "written_signed = addnext example_root 1 written_signature"

definition tail_text_root :: element where
  "tail_text_root =
     Element (clark NS_NFSE ''DPS'') [(''versao'', ''1.00'')] [(None, NS_NFSE)] None
       [Element (clark NS_NFSE ''infDPS'') [(''Id'', ''DPS35a7B'')] [] None
          [Element (clark NS_NFSE ''tpAmb'') [] [] (Some ''2'') [] None] (Some ''texto'')] None"

definition written_parses :: "(bytes \<times> (error + element)) list" where
  "written_parses =
     [(written_document, Inr example_root),
      (written_target_text, Inr written_copy),
      (written_signedinfo_text,
         Inr (in_context [(None, NS_DS)] (SignedInfo_element ''DPS35a7B'' written_digest))),
      (written_output, Inr written_signed),
      (tail_text_document, Inr tail_text_root),
      (tail_text_target_text,
         Inl (XMLSyntaxError ''Extra content at the end of the document''))]"

definition written_fromstring :: "bytes \<Rightarrow> error + element" where
  "written_fromstring b =
     (case map_of written_parses b of
        Some r \<Rightarrow> r
      | None \<Rightarrow> Inl (XMLSyntaxError ''Start tag expected''))"

definition written_env :: "(private_key, nat) env" where
  "written_env =
     example_env
       \<lparr> sha1 := written_sha1, fromstring := written_fromstring,
         tostring := written_tostring, sign := written_sign \<rparr>"

section \<open>Properties of the tree operations and of the steps\<close>

lemma clark_eq_iff: "clark u a = clark u b \<longleftrightarrow> a = b"
  by (simp add: clark_def)

lemma ds_eq_iff: "ds a = ds b \<longleftrightarrow> a = b"
  by (simp add: ds_def clark_eq_iff)

lemma element_find_ns:
  "element_find root (''ns:'' @ t) ns_nfse = Inr (first_child (clark NS_NFSE t) (children root))"
  by (simp add: element_find_def resolve_step_def ns_nfse_def)

lemma first_child_Some_iff:
  "first_child q cs = Some i \<longleftrightarrow>
     i < length cs \<and> tag (cs ! i) = q \<and> (\<forall>j<i. tag (cs ! j) \<noteq> q)"
proof (induction cs arbitrary: i)
  case Nil
  show ?case by simp
next
  case (Cons c cs)
  show ?case
  proof (cases "tag c = q")
    case True
    then show ?thesis by (cases i) auto
  next
    case False
    show ?thesis
    proof (cases i)
      case 0
      with False show ?thesis by simp
    next
      case (Suc k)
      have "(\<forall>j<Suc k. tag ((c # cs) ! j) \<noteq> q) \<longleftrightarrow> (\<forall>j<k. tag (cs ! j) \<noteq> q)"
        using False by (auto simp: less_Suc_eq_0_disj)
      with False Suc Cons.IH [of k] show ?thesis by auto
    qed
  qed
qed

lemma first_child_None_iff: "first_child q cs = None \<longleftrightarrow> (\<forall>c\<in>set cs. tag c \<noteq> q)"
  by (induction cs) auto

lemma first_child_prefix:
  "first_child q cs = Some i \<Longrightarrow> first_child q (take (Suc i) cs @ ys) = Some i"
proof (induction cs arbitrary: i)
  case Nil
  then show ?case by simp
next
  case (Cons c cs)
  then show ?case by (cases "tag c = q") auto
qed

lemma children_addnext:
  "children (addnext root i new) = take (Suc i) (children root) @ new # drop (Suc i) (children root)"
  by (cases root) simp

lemma nsmap_addnext: "nsmap (addnext root i new) = nsmap root"
  by (cases root) simp

lemma getnext_addnext:
  "i < length (children root) \<Longrightarrow> getnext (addnext root i new) i = Some new"
  by (simp add: getnext_def children_addnext nth_append)

lemma target_addnext:
  "i < length (children root) \<Longrightarrow> children (addnext root i new) ! i = children root ! i"
  by (simp add: children_addnext nth_append)

lemma locate_Inr_iff:
  "locate root t = Inr (i, inf_id) \<longleftrightarrow>
     first_child (clark NS_NFSE t) (children root) = Some i \<and>
     element_get (children root ! i) ''Id'' = Some inf_id \<and> inf_id \<noteq> []"
  by (auto simp: locate_def element_find_ns [simplified] split: option.splits)


lemma messages_differ: "msg_nao_encontrado t \<noteq> msg_id_ausente t"
  by (simp add: msg_nao_encontrado_def msg_id_ausente_def)

lemma load_credential_cases:
  assumes "read_file env pfx_path = Inr pfx_data"
  shows "load_credential env pfx_path pw =
     (case load_key_and_certificates env pfx_data (pkcs12_password pw) of
        Inl e \<Rightarrow> Inl e
      | Inr (None, c, cs) \<Rightarrow> Inl (ValueError msg_pfx_invalido)
      | Inr (Some k, None, cs) \<Rightarrow> Inl (ValueError msg_pfx_invalido)
      | Inr (Some k, Some c, cs) \<Rightarrow> Inr (k, c))"
  using assms by (simp add: load_credential_def split: sum.splits prod.splits option.splits)

lemma load_credential_xml_update:
  "load_credential (env\<lparr>fromstring := fs, tostring := ts\<rparr>) p pw = load_credential env p pw"
  by (simp add: load_credential_def split: sum.splits)

lemma signed_tree_Inr_iff:
  "signed_tree env xml_in pfx_path pfx_password t = Inr root' \<longleftrightarrow>
     (\<exists>k c root i inf_id tc sc sr.
        load_credential env pfx_path pfx_password = Inr (k, c) \<and>
        fromstring env (xml_bytes xml_in) = Inr root \<and>
        locate root t = Inr (i, inf_id) \<and>
        canonical_bytes env (nsmap root) (children root ! i) = Inr tc \<and>
        canonical_bytes env [(None, NS_DS)]
          (SignedInfo_element inf_id (b64encode env (sha1 env tc))) = Inr sc \<and>
        sign env k sc = Inr sr \<and>
        root' = addnext root i
          (Signature_element
            [SignedInfo_element inf_id (b64encode env (sha1 env tc)),
             SubElement (ds ''SignatureValue'') [] (Some (b64encode env sr)) [],
             KeyInfo_element (b64encode env (public_bytes_DER env c))]))"
  by (auto simp: signed_tree_def Let_def split: sum.splits prod.splits)

lemma signed_tree_cases:
  assumes "signed_tree env xml_in pfx_path pfx_password t = Inr root'"
    and "fromstring env (xml_bytes xml_in) = Inr root"
    and "element_find root (''ns:'' @ t) ns_nfse = Inr (Some i)"
  obtains k c inf_id tc sc sr where
    "load_credential env pfx_path pfx_password = Inr (k, c)"
    "first_child (clark NS_NFSE t) (children root) = Some i"
    "element_get (children root ! i) ''Id'' = Some inf_id" "inf_id \<noteq> []"
    "canonical_bytes env (nsmap root) (children root ! i) = Inr tc"
    "canonical_bytes env [(None, NS_DS)]
       (SignedInfo_element inf_id (b64encode env (sha1 env tc))) = Inr sc"
    "sign env k sc = Inr sr"
    "root' = addnext root i
       (Signature_element
         [SignedInfo_element inf_id (b64encode env (sha1 env tc)),
          SubElement (ds ''SignatureValue'') [] (Some (b64encode env sr)) [],
          KeyInfo_element (b64encode env (public_bytes_DER env c))])"
proof -
  from assms(1) obtain k c root0 j inf_id tc sc sr where
    l: "load_credential env pfx_path pfx_password = Inr (k, c)"
    and p: "fromstring env (xml_bytes xml_in) = Inr root0"
    and loc: "locate root0 t = Inr (j, inf_id)"
    and tc: "canonical_bytes env (nsmap root0) (children root0 ! j) = Inr tc"
    and sc: "canonical_bytes env [(None, NS_DS)]
          (SignedInfo_element inf_id (b64encode env (sha1 env tc))) = Inr sc"
    and sr: "sign env k sc = Inr sr"
    and r: "root' = addnext root0 j
          (Signature_element
            [SignedInfo_element inf_id (b64encode env (sha1 env tc)),
             SubElement (ds ''SignatureValue'') [] (Some (b64encode env sr)) [],
             KeyInfo_element (b64encode env (public_bytes_DER env c))])"
    unfolding signed_tree_Inr_iff by blast
  from p assms(2) have root0: "root0 = root" by simp
  from loc have fc: "first_child (clark NS_NFSE t) (children root0) = Some j"
    and id: "element_get (children root0 ! j) ''Id'' = Some inf_id" "inf_id \<noteq> []"
    by (simp_all add: locate_Inr_iff)
  from assms(3) have "first_child (clark NS_NFSE t) (children root) = Some i"
    by (simp add: element_find_ns [simplified])
  with fc root0 have j: "j = i" by simp
  show thesis
    using that [of k c inf_id tc sc sr] l fc id tc sc sr r root0 j by simp
qed

lemma assinar_xml_Inr_iff:
  "assinar_xml env xml_in pfx_path pfx_password tag_to_sign = Inr out \<longleftrightarrow>
     (\<exists>root'. signed_tree env xml_in pfx_path pfx_password tag_to_sign = Inr root' \<and>
        out = tostring env [] root' (Xml True False))"
  by (auto simp: assinar_xml_def split: sum.splits)

lemma load_credential_fails:
  "load_credential env p pw = Inl e \<Longrightarrow> assinar_xml env x p pw t = Inl e"
  by (simp add: assinar_xml_def signed_tree_def)

lemma locate_fails:
  "load_credential env p pw = Inr (k, c) \<Longrightarrow> fromstring env (xml_bytes x) = Inr root \<Longrightarrow>
   locate root t = Inl e \<Longrightarrow> assinar_xml env x p pw t = Inl e"
  by (simp add: assinar_xml_def signed_tree_def)


lemma assinar_xml_sign_step:
  assumes "load_credential env pfx_path pfx_password = Inr (k, c)"
    and "fromstring env (xml_bytes xml_in) = Inr root"
    and "locate root tag_to_sign = Inr (i, inf_id)"
    and "canonical_bytes env (nsmap root) (children root ! i) = Inr tc"
    and "canonical_bytes env [(None, NS_DS)]
           (SignedInfo_element inf_id (b64encode env (sha1 env tc))) = Inr sc"
  shows "assinar_xml env xml_in pfx_path pfx_password tag_to_sign =
     (case sign env k sc of
        Inl e \<Rightarrow> Inl e
      | Inr sr \<Rightarrow>
          Inr (tostring env []
            (addnext root i
              (Signature_element
                [SignedInfo_element inf_id (b64encode env (sha1 env tc)),
                 SubElement (ds ''SignatureValue'') [] (Some (b64encode env sr)) [],
                 KeyInfo_element (b64encode env (public_bytes_DER env c))]))
            (Xml True False)))"
  using assms by (simp add: assinar_xml_def signed_tree_def Let_def split: sum.splits)

lemma Signature_digest_value:
  "map elem_text
     (findall_path
        (Signature_element
          [SignedInfo_element inf_id d, SubElement (ds ''SignatureValue'') [] s [],
           KeyInfo_element cb])
        [ds ''SignedInfo'', ds ''Reference'', ds ''DigestValue'']) = [Some d]"
  by (simp add: findall_def Signature_element_def SignedInfo_element_def Reference_element_def
      Transforms_element_def KeyInfo_element_def SubElement_def ds_eq_iff)

lemma Signature_structure:
  fixes d s cb inf_id
  defines "sig \<equiv> Signature_element
          [SignedInfo_element inf_id d, SubElement (ds ''SignatureValue'') [] s [],
           KeyInfo_element cb]"
  shows "tag sig = ds ''Signature''"
    and "map tag (children sig) = [ds ''SignedInfo'', ds ''SignatureValue'', ds ''KeyInfo'']"
    and "map (map tag \<circ> children) (findall sig (ds ''KeyInfo'')) = [[ds ''X509Data'']]"
    and "map (map tag \<circ> children) (findall_path sig [ds ''KeyInfo'', ds ''X509Data'']) =
           [[ds ''X509Certificate'']]"
    and "map (map tag \<circ> children) (findall sig (ds ''SignedInfo'')) =
           [[ds ''CanonicalizationMethod'', ds ''SignatureMethod'', ds ''Reference'']]"
    and "map attrib (findall_path sig [ds ''SignedInfo'', ds ''Reference'']) =
           [[(''URI'', ''#'' @ inf_id)]]"
    and "map (map tag \<circ> children) (findall_path sig [ds ''SignedInfo'', ds ''Reference'']) =
           [[ds ''Transforms'', ds ''DigestMethod'', ds ''DigestValue'']]"
    and "map (map (\<lambda>t. (tag t, attrib t)) \<circ> children)
           (findall_path sig [ds ''SignedInfo'', ds ''Reference'', ds ''Transforms'']) =
           [[(ds ''Transform'', [(''Algorithm'', ALG_ENVELOPED)]),
             (ds ''Transform'', [(''Algorithm'', ALG_C14N)])]]"
  unfolding sig_def
  by (simp_all add: findall_def Signature_element_def SignedInfo_element_def
      Reference_element_def Transforms_element_def KeyInfo_element_def SubElement_def ds_eq_iff)

lemma env_xml_update_same: "env\<lparr>fromstring := fromstring env, tostring := tostring env\<rparr> = env"
  by simp

subsection \<open>The first example evaluated\<close>

lemma example_plain_tag: "plain_tag ''infDPS''"
  by (simp add: plain_tag_def name_start_chars_def name_chars_def)

lemma example_load:
  "load_credential example_env ''rsa.pfx'' (Some ''segredo'') = Inr (RSAPrivateKey 7, 1)"
  by (simp add: load_credential_def example_env_def example_files_def pkcs12_password_def)

lemma example_parse: "fromstring example_env (xml_bytes (Bytes ''<DPS>'')) = Inr example_root"
  by (simp add: example_env_def example_documents_def)

lemma example_find:
  "element_find example_root (''ns:'' @ ''infDPS'') ns_nfse = Inr (Some 1)"
  by (simp add: element_find_ns [simplified] example_root_def example_target_def clark_def)

lemma example_locate: "locate example_root ''infDPS'' = Inr (1, ''DPS35a7B'')"
  by (simp add: locate_Inr_iff example_root_def example_target_def clark_def element_get_def)

lemma example_target_c14n:
  "canonical_bytes example_env (nsmap example_root) (children example_root ! 1) =
     Inr ''c14n:{http://www.sped.fazenda.gov.br/nfse}infDPS''"
  by (simp add: canonical_bytes_def example_env_def example_documents_def example_name_def
      example_root_def example_target_def clark_def NS_NFSE_def)

lemma example_signedinfo_c14n:
  "canonical_bytes example_env [(None, NS_DS)] (SignedInfo_element inf_id d) =
     Inr ''c14n:{http://www.w3.org/2000/09/xmldsig#}SignedInfo''"
  by (simp add: canonical_bytes_def example_env_def example_documents_def example_name_def
      SignedInfo_element_def SubElement_def ds_def clark_def NS_DS_def)

lemma example_signed_tree:
  "signed_tree example_env (Bytes ''<DPS>'') ''rsa.pfx'' (Some ''segredo'') ''infDPS'' =
     Inr example_signed"
proof -
  have "sign example_env (RSAPrivateKey 7) d = Inr (''rsa('' @ d @ '')'')" for d
    by (simp add: example_env_def)
  moreover have "b64encode example_env b = ''b64('' @ b @ '')''"
    and "sha1 example_env b = ''sha1('' @ b @ '')''"
    and "public_bytes_DER example_env 1 = ''DERI''" for b
    by (simp_all add: example_env_def)
  ultimately show ?thesis
    unfolding signed_tree_Inr_iff example_signed_def example_signature_def
    using example_load example_parse example_locate example_target_c14n
      example_signedinfo_c14n
    by simp
qed

lemma example_getnext: "getnext example_signed 1 = Some example_signature"
  by (simp add: example_signed_def example_root_def getnext_def)

lemma example_target_id: "element_get (children example_root ! 1) ''Id'' = Some ''DPS35a7B''"
  by (simp add: example_root_def example_target_def element_get_def)

lemma example_parse_others:
  "fromstring example_env (xml_bytes (Bytes ''<no-match>'')) = Inr no_match_root"
  "fromstring example_env (xml_bytes (Bytes ''<no-id>'')) = Inr no_id_root"
  "fromstring example_env (xml_bytes (Bytes ''<empty-id>'')) = Inr empty_id_root"
  by (simp_all add: example_env_def example_documents_def)

lemma example_files_read:
  "read_file example_env ''empty.pfx'' = Inr []"
  "read_file example_env ''rsa.pfx'' = Inr ''PFX-RSA''"
  "read_file example_env ''no-key.pfx'' = Inr ''PFX-NO-KEY''"
  "read_file example_env ''no-cert.pfx'' = Inr ''PFX-NO-CERT''"
  by (simp_all add: example_env_def example_files_def)

lemma example_pkcs12:
  "load_key_and_certificates example_env [] (pkcs12_password (Some ''segredo'')) =
     Inl (ValueError ''Could not deserialize PKCS12 data'')"
  "load_key_and_certificates example_env ''PFX-RSA'' (pkcs12_password (Some ''errada'')) =
     Inl (ValueError ''Invalid password or PKCS12 data'')"
  "load_key_and_certificates example_env ''PFX-NO-KEY'' (pkcs12_password None) =
     Inr (None, Some 1, [])"
  "load_key_and_certificates example_env ''PFX-NO-CERT'' (pkcs12_password None) =
     Inr (Some (RSAPrivateKey 7), None, [])"
  "load_key_and_certificates example_env ''PFX-RSA'' (pkcs12_password (Some ''segredo'')) =
     Inr (Some (RSAPrivateKey 7), Some 1, [])"
  by (simp_all add: example_env_def pkcs12_password_def)

lemma example_load_ec:
  "load_credential example_env ''ec.pfx'' None = Inr (EllipticCurvePrivateKey 3, 2)"
  by (simp add: load_credential_def example_env_def example_files_def pkcs12_password_def)

lemma example_sign_ec:
  "sign example_env (EllipticCurvePrivateKey 3) d =
     Inl (TypeError ''sign() takes 3 positional arguments but 4 were given'')"
  by (simp add: example_env_def)

subsection \<open>The written example evaluated\<close>

lemmas written_tree_defs =
  example_root_def example_target_def written_copy_def written_signature_def written_signed_def
  tail_text_root_def Signature_element_def SignedInfo_element_def Reference_element_def
  Transforms_element_def KeyInfo_element_def SubElement_def ds_def clark_def NS_NFSE_def NS_DS_def
  ALG_C14N_def ALG_RSA_SHA1_def ALG_ENVELOPED_def ALG_SHA1_def

lemmas written_write_defs =
  written_tostring_def xml_declaration_text_def local_name_def quoted_def write_decl_def
  write_attr_def opt_text_def

lemmas written_text_defs =
  written_document_def written_target_text_def written_signedinfo_text_def written_output_def
  tail_text_document_def tail_text_target_text_def

lemma written_env_fields:
  "tostring written_env = written_tostring"
  "fromstring written_env = written_fromstring"
  "sha1 written_env = written_sha1"
  "sign written_env = written_sign"
  "b64encode written_env = b64encode example_env"
  "public_bytes_DER written_env = public_bytes_DER example_env"
  "read_file written_env = read_file example_env"
  "load_key_and_certificates written_env = load_key_and_certificates example_env"
  by (simp_all add: written_env_def)

lemma written_target_serialised:
  "written_tostring (nsmap example_root) (children example_root ! 1) (Xml False False) =
     written_target_text"
  by (simp add: written_tree_defs written_write_defs written_target_text_def)

lemma written_target_canonical:
  "written_tostring [] written_copy (C14N False False) = written_target_c14n"
  by (simp add: written_tree_defs written_write_defs written_target_c14n_def)

lemma written_digest_eq:
  "b64encode example_env (written_sha1 written_target_c14n) = written_digest"
  by (simp add: example_env_def written_sha1_def letters_of_def name_start_chars_def
      written_target_c14n_def written_digest_def)

lemma written_signedinfo_serialised:
  "written_tostring [(None, NS_DS)] (SignedInfo_element ''DPS35a7B'' written_digest)
     (Xml False False) = written_signedinfo_text"
  by (simp add: written_tree_defs written_write_defs written_signedinfo_text_def
      written_digest_def)

lemma written_signedinfo_canonical:
  "written_tostring []
     (in_context [(None, NS_DS)] (SignedInfo_element ''DPS35a7B'' written_digest))
     (C14N False False) = written_signedinfo_c14n"
  by (simp add: written_tree_defs written_write_defs written_signedinfo_c14n_def
      written_digest_def)

lemma written_signature_value_eq:
  "written_sign (RSAPrivateKey 7) written_signedinfo_c14n = Inr (take 16 (letters_of written_signedinfo_c14n))"
  "b64encode example_env (take 16 (letters_of written_signedinfo_c14n)) = written_signature_value"
  by (simp_all add: written_sign_def example_env_def letters_of_def name_start_chars_def
      written_signedinfo_c14n_def written_signature_value_def)

lemma written_output_serialised:
  "written_tostring [] written_signed (Xml True False) = written_output"
  by (simp add: written_tree_defs written_write_defs written_output_def
      written_digest_def written_signature_value_def)

lemma written_parse_results:
  "written_fromstring written_document = Inr example_root"
  "written_fromstring written_target_text = Inr written_copy"
  "written_fromstring written_signedinfo_text =
     Inr (in_context [(None, NS_DS)] (SignedInfo_element ''DPS35a7B'' written_digest))"
  "written_fromstring written_output = Inr written_signed"
  "written_fromstring tail_text_document = Inr tail_text_root"
  "written_fromstring tail_text_target_text =
     Inl (XMLSyntaxError ''Extra content at the end of the document'')"
  by (simp_all add: written_fromstring_def written_parses_def written_text_defs)

lemma written_load:
  "load_credential written_env ''rsa.pfx'' (Some ''segredo'') = Inr (RSAPrivateKey 7, 1)"
  by (simp add: load_credential_def written_env_def example_env_def example_files_def
      pkcs12_password_def)

lemma written_parse:
  "fromstring written_env (xml_bytes (Bytes written_document)) = Inr example_root"
  by (simp add: written_env_fields written_parse_results)

lemma written_target_bytes:
  "canonical_bytes written_env (nsmap example_root) (children example_root ! 1) =
     Inr written_target_c14n"
  using written_target_serialised
  by (simp add: canonical_bytes_def written_env_fields written_parse_results
      written_target_canonical)

lemma written_signedinfo_bytes:
  "canonical_bytes written_env [(None, NS_DS)] (SignedInfo_element ''DPS35a7B'' written_digest) =
     Inr written_signedinfo_c14n"
  using written_signedinfo_serialised
  by (simp add: canonical_bytes_def written_env_fields written_parse_results
      written_signedinfo_canonical)

lemma written_signed_tree:
  "signed_tree written_env (Bytes written_document) ''rsa.pfx'' (Some ''segredo'') ''infDPS'' =
     Inr written_signed"
proof -
  have "b64encode example_env (public_bytes_DER example_env 1) = ''b64(DERI)''"
    by (simp add: example_env_def)
  then show ?thesis
    unfolding signed_tree_Inr_iff written_signed_def written_signature_def
    using written_load written_parse example_locate written_target_bytes
      written_signedinfo_bytes written_digest_eq written_signature_value_eq
    by (simp add: written_env_fields)
qed

lemma written_assinar_xml:
  "assinar_xml written_env (Bytes written_document) ''rsa.pfx'' (Some ''segredo'') ''infDPS'' =
     Inr written_output"
  by (simp add: assinar_xml_def written_signed_tree written_env_fields written_output_serialised)

lemma written_reparse: "fromstring written_env written_output = Inr written_signed"
  by (simp add: written_env_fields written_parse_results)

lemma written_getnext: "getnext written_signed 1 = Some written_signature"
  by (simp add: written_signed_def example_root_def getnext_def)

lemma written_children:
  "children written_signed =
     take 2 (children example_root) @ written_signature # drop 2 (children example_root)"
  "children written_signed ! 1 = example_target"
  "length (children written_signed) = 4"
  by (simp_all add: written_signed_def example_root_def)








section \<open>The claims\<close>

text \<open>
  In the theorems below \<open>root\<close> is the parsed input document, \<open>i\<close> the position
  under \<open>root\<close> of the element that line 74 locates, \<open>root'\<close> the tree that
  line 174 serialises and \<open>out\<close> the text that \<^verbatim>\<open>assinar_xml\<close> returns.
  \<open>plain_tag\<close> restricts the tag to an ASCII name, for which \<open>element_find\<close> is
  the search the source makes.
\<close>




text \<open>
  Claim C2. After a successful signing call the Signature element has the
  children SignedInfo, SignatureValue, KeyInfo, one of each and in this order;
  KeyInfo holds one X509Data, which holds one X509Certificate; SignedInfo holds
  one Reference, whose only attribute is URI with the value \<^verbatim>\<open>#\<close> followed by
  the Id attribute of the target, whatever characters the Id has; the Reference
  holds one Transforms with exactly two Transform children, the
  enveloped-signature algorithm first and C14N 1.0 second.
\<close>

theorem signature_structure:
  assumes "plain_tag tag_to_sign"
    and "signed_tree env xml_in pfx_path pfx_password tag_to_sign = Inr root'"
    and "fromstring env (xml_bytes xml_in) = Inr root"
    and "element_find root (''ns:'' @ tag_to_sign) ns_nfse = Inr (Some i)"
  shows "\<exists>sig inf_id.
      getnext root' i = Some sig \<and>
      element_get (children root ! i) ''Id'' = Some inf_id \<and>
      tag sig = ds ''Signature'' \<and>
      map tag (children sig) = [ds ''SignedInfo'', ds ''SignatureValue'', ds ''KeyInfo''] \<and>
      map (map tag \<circ> children) (findall sig (ds ''KeyInfo'')) = [[ds ''X509Data'']] \<and>
      map (map tag \<circ> children) (findall_path sig [ds ''KeyInfo'', ds ''X509Data'']) =
        [[ds ''X509Certificate'']] \<and>
      map (map tag \<circ> children) (findall sig (ds ''SignedInfo'')) =
        [[ds ''CanonicalizationMethod'', ds ''SignatureMethod'', ds ''Reference'']] \<and>
      map attrib (findall_path sig [ds ''SignedInfo'', ds ''Reference'']) =
        [[(''URI'', ''#'' @ inf_id)]] \<and>
      map (map tag \<circ> children) (findall_path sig [ds ''SignedInfo'', ds ''Reference'']) =
        [[ds ''Transforms'', ds ''DigestMethod'', ds ''DigestValue'']] \<and>
      map (map (\<lambda>t. (tag t, attrib t)) \<circ> children)
        (findall_path sig [ds ''SignedInfo'', ds ''Reference'', ds ''Transforms'']) =
        [[(ds ''Transform'', [(''Algorithm'', ALG_ENVELOPED)]),
          (ds ''Transform'', [(''Algorithm'', ALG_C14N)])]]"
proof -
  from assms(2-4) obtain k c inf_id tc sc sr where
    fc: "first_child (clark NS_NFSE tag_to_sign) (children root) = Some i"
    and id: "element_get (children root ! i) ''Id'' = Some inf_id"
    and "sign env k sc = Inr sr"
    and r: "root' = addnext root i
       (Signature_element
         [SignedInfo_element inf_id (b64encode env (sha1 env tc)),
          SubElement (ds ''SignatureValue'') [] (Some (b64encode env sr)) [],
          KeyInfo_element (b64encode env (public_bytes_DER env c))])"
    by (rule signed_tree_cases)
  from fc have i: "i < length (children root)"
    by (simp add: first_child_Some_iff)
  from r i have "getnext root' i = Some
       (Signature_element
         [SignedInfo_element inf_id (b64encode env (sha1 env tc)),
          SubElement (ds ''SignatureValue'') [] (Some (b64encode env sr)) [],
          KeyInfo_element (b64encode env (public_bytes_DER env c))])"
    by (simp add: getnext_addnext)
  with id show ?thesis
    by (simp add: Signature_structure del: findall_path.simps)
qed

theorem signature_structure_witness:
  "plain_tag ''infDPS'' \<and>
   signed_tree example_env (Bytes ''<DPS>'') ''rsa.pfx'' (Some ''segredo'') ''infDPS'' =
     Inr example_signed \<and>
   fromstring example_env (xml_bytes (Bytes ''<DPS>'')) = Inr example_root \<and>
   element_find example_root (''ns:'' @ ''infDPS'') ns_nfse = Inr (Some 1) \<and>
   map tag (children example_signature) =
     [ds ''SignedInfo'', ds ''SignatureValue'', ds ''KeyInfo''] \<and>
   map attrib (findall_path example_signature [ds ''SignedInfo'', ds ''Reference'']) =
     [[(''URI'', ''#DPS35a7B'')]]"
proof -
  from signature_structure [OF example_plain_tag example_signed_tree example_parse example_find]
  obtain sig inf_id where
    "getnext example_signed 1 = Some sig"
    and "element_get (children example_root ! 1) ''Id'' = Some inf_id"
    and "map tag (children sig) = [ds ''SignedInfo'', ds ''SignatureValue'', ds ''KeyInfo'']"
    and "map attrib (findall_path sig [ds ''SignedInfo'', ds ''Reference'']) =
      [[(''URI'', ''#'' @ inf_id)]]"
    by (elim exE conjE) (rule that)
  then have "map tag (children example_signature) =
     [ds ''SignedInfo'', ds ''SignatureValue'', ds ''KeyInfo'']"
    and "map attrib (findall_path example_signature [ds ''SignedInfo'', ds ''Reference'']) =
     [[(''URI'', ''#DPS35a7B'')]]"
    using example_getnext example_target_id by (simp_all del: findall_path.simps)
  then show ?thesis
    using example_plain_tag example_signed_tree example_parse example_find by (intro conjI)
qed

text \<open>
  Claim C3. Signing leaves the signed content as it was. Let \<open>out\<close> be the
  text a successful call returns and \<open>doc\<close> the document parsed from \<open>out\<close>,
  for a parser that reads back the tree that line 174 serialised. Then in
  \<open>doc\<close> the same search finds the target at the same position, the target
  subtree and the namespace declarations above it are those of the input
  document, and canonicalising and hashing the subtree taken from \<open>doc\<close>, the
  way the signer does, gives the bytes that were digested before the
  Signature was inserted and the DigestValue that the Signature in \<open>doc\<close>
  holds.
\<close>

theorem target_unchanged_in_signed_document:
  assumes "plain_tag tag_to_sign"
    and "assinar_xml env xml_in pfx_path pfx_password tag_to_sign = Inr out"
    and "fromstring env (xml_bytes xml_in) = Inr root"
    and "element_find root (''ns:'' @ tag_to_sign) ns_nfse = Inr (Some i)"
    and "fromstring env out = Inr doc"
    and "signed_tree env xml_in pfx_path pfx_password tag_to_sign = Inr doc"
  shows "out = tostring env [] doc (Xml True False) \<and>
      fromstring env (tostring env [] doc (Xml True False)) = Inr doc \<and>
      element_find doc (''ns:'' @ tag_to_sign) ns_nfse = Inr (Some i) \<and>
      children doc ! i = children root ! i \<and>
      nsmap doc = nsmap root \<and>
      (\<exists>tc sig.
         canonical_bytes env (nsmap root) (children root ! i) = Inr tc \<and>
         canonical_bytes env (nsmap doc) (children doc ! i) = Inr tc \<and>
         getnext doc i = Some sig \<and>
         map elem_text
           (findall_path sig [ds ''SignedInfo'', ds ''Reference'', ds ''DigestValue'']) =
           [Some (b64encode env (sha1 env tc))])"
proof -
  from assms(2,6) have out: "out = tostring env [] doc (Xml True False)"
    by (simp add: assinar_xml_def)
  with assms(5) have again: "fromstring env (tostring env [] doc (Xml True False)) = Inr doc"
    by simp
  from assms(6,3,4) obtain k c inf_id tc sc sr where
    fc: "first_child (clark NS_NFSE tag_to_sign) (children root) = Some i"
    and tc: "canonical_bytes env (nsmap root) (children root ! i) = Inr tc"
    and "sign env k sc = Inr sr"
    and r: "doc = addnext root i
       (Signature_element
         [SignedInfo_element inf_id (b64encode env (sha1 env tc)),
          SubElement (ds ''SignatureValue'') [] (Some (b64encode env sr)) [],
          KeyInfo_element (b64encode env (public_bytes_DER env c))])"
    by (rule signed_tree_cases)
  from fc have i: "i < length (children root)"
    by (simp add: first_child_Some_iff)
  have find': "element_find doc (''ns:'' @ tag_to_sign) ns_nfse = Inr (Some i)"
    unfolding r by (simp add: element_find_ns [simplified] children_addnext first_child_prefix [OF fc])
  have same: "children doc ! i = children root ! i"
    unfolding r using i by (rule target_addnext)
  have ns: "nsmap doc = nsmap root"
    unfolding r by (rule nsmap_addnext)
  have nxt: "getnext doc i = Some
       (Signature_element
         [SignedInfo_element inf_id (b64encode env (sha1 env tc)),
          SubElement (ds ''SignatureValue'') [] (Some (b64encode env sr)) [],
          KeyInfo_element (b64encode env (public_bytes_DER env c))])"
    unfolding r using i by (rule getnext_addnext)
  from tc same ns have "canonical_bytes env (nsmap doc) (children doc ! i) = Inr tc"
    by simp
  with out again find' same ns nxt tc show ?thesis
    by (simp add: Signature_digest_value del: findall_path.simps)
qed

theorem target_unchanged_in_signed_document_witness:
  "plain_tag ''infDPS'' \<and>
   assinar_xml written_env (Bytes written_document) ''rsa.pfx'' (Some ''segredo'') ''infDPS'' =
     Inr written_output \<and>
   fromstring written_env (xml_bytes (Bytes written_document)) = Inr example_root \<and>
   element_find example_root (''ns:'' @ ''infDPS'') ns_nfse = Inr (Some 1) \<and>
   fromstring written_env written_output = Inr written_signed \<and>
   signed_tree written_env (Bytes written_document) ''rsa.pfx'' (Some ''segredo'') ''infDPS'' =
     Inr written_signed \<and>
   element_find written_signed (''ns:'' @ ''infDPS'') ns_nfse = Inr (Some 1) \<and>
   children written_signed ! 1 = example_target \<and>
   canonical_bytes written_env (nsmap written_signed) (children written_signed ! 1) =
     Inr written_target_c14n \<and>
   map elem_text
     (findall_path written_signature [ds ''SignedInfo'', ds ''Reference'', ds ''DigestValue'']) =
     [Some (b64encode written_env (sha1 written_env written_target_c14n))]"
proof -
  from target_unchanged_in_signed_document
    [OF example_plain_tag written_assinar_xml written_parse example_find written_reparse
      written_signed_tree]
  obtain tc sig where
    f: "element_find written_signed (''ns:'' @ ''infDPS'') ns_nfse = Inr (Some 1)"
    and t: "children written_signed ! 1 = children example_root ! 1"
    and c0: "canonical_bytes written_env (nsmap example_root) (children example_root ! 1) = Inr tc"
    and c: "canonical_bytes written_env (nsmap written_signed) (children written_signed ! 1) =
      Inr tc"
    and g: "getnext written_signed 1 = Some sig"
    and d: "map elem_text
       (findall_path sig [ds ''SignedInfo'', ds ''Reference'', ds ''DigestValue'']) =
       [Some (b64encode written_env (sha1 written_env tc))]"
    by (elim exE conjE) (rule that)
  from t have t': "children written_signed ! 1 = example_target"
    by (simp add: example_root_def)
  from c0 written_target_bytes have tc: "tc = written_target_c14n" by simp
  from g written_getnext have sig: "sig = written_signature" by simp
  from f t' c d show ?thesis
    unfolding tc sig
    using example_plain_tag written_assinar_xml written_parse example_find written_reparse
      written_signed_tree
    by (intro conjI)
qed

text \<open>
  Claim C4. The text a successful call returns is the serialisation, with an
  XML declaration, of the input tree after \<^verbatim>\<open>target.addnext(Signature)\<close>: the
  children of the root are the children of the input document with one
  element inserted; everything up to and including the target is unchanged,
  the new element comes directly after the target and is the Signature, and
  the siblings that followed the target follow the Signature. This holds for
  any number of siblings before and after the target. The target itself is
  unchanged, so the Signature is its sibling and not its child.
\<close>

theorem signature_placement_in_output:
  assumes "plain_tag tag_to_sign"
    and "assinar_xml env xml_in pfx_path pfx_password tag_to_sign = Inr out"
    and "fromstring env (xml_bytes xml_in) = Inr root"
    and "element_find root (''ns:'' @ tag_to_sign) ns_nfse = Inr (Some i)"
  shows "\<exists>root' sig.
      signed_tree env xml_in pfx_path pfx_password tag_to_sign = Inr root' \<and>
      out = tostring env [] root' (Xml True False) \<and>
      root' = addnext root i sig \<and>
      getnext root' i = Some sig \<and> tag sig = ds ''Signature'' \<and>
      i < length (children root) \<and>
      children root' = take (Suc i) (children root) @ sig # drop (Suc i) (children root) \<and>
      children root' ! i = children root ! i \<and>
      length (children root') = Suc (length (children root))"
proof -
  from assms(2) obtain root' where
    st: "signed_tree env xml_in pfx_path pfx_password tag_to_sign = Inr root'"
    and out: "out = tostring env [] root' (Xml True False)"
    unfolding assinar_xml_Inr_iff by blast
  from st assms(3,4) obtain k c inf_id tc sc sr where
    fc: "first_child (clark NS_NFSE tag_to_sign) (children root) = Some i"
    and "sign env k sc = Inr sr"
    and r: "root' = addnext root i
       (Signature_element
         [SignedInfo_element inf_id (b64encode env (sha1 env tc)),
          SubElement (ds ''SignatureValue'') [] (Some (b64encode env sr)) [],
          KeyInfo_element (b64encode env (public_bytes_DER env c))])"
    by (rule signed_tree_cases)
  from fc have i: "i < length (children root)"
    by (simp add: first_child_Some_iff)
  have "getnext root' i = Some
       (Signature_element
         [SignedInfo_element inf_id (b64encode env (sha1 env tc)),
          SubElement (ds ''SignatureValue'') [] (Some (b64encode env sr)) [],
          KeyInfo_element (b64encode env (public_bytes_DER env c))])"
    unfolding r using i by (rule getnext_addnext)
  moreover have "children root' ! i = children root ! i"
    unfolding r using i by (rule target_addnext)
  moreover have "children root' = take (Suc i) (children root) @
       Signature_element
         [SignedInfo_element inf_id (b64encode env (sha1 env tc)),
          SubElement (ds ''SignatureValue'') [] (Some (b64encode env sr)) [],
          KeyInfo_element (b64encode env (public_bytes_DER env c))] #
       drop (Suc i) (children root)"
    unfolding r by (rule children_addnext)
  moreover from this i have "length (children root') = Suc (length (children root))"
    by simp
  ultimately show ?thesis
    using i st out r by (simp add: Signature_structure(1))
qed

theorem signature_placement_in_output_witness:
  "plain_tag ''infDPS'' \<and>
   assinar_xml written_env (Bytes written_document) ''rsa.pfx'' (Some ''segredo'') ''infDPS'' =
     Inr written_output \<and>
   fromstring written_env (xml_bytes (Bytes written_document)) = Inr example_root \<and>
   element_find example_root (''ns:'' @ ''infDPS'') ns_nfse = Inr (Some 1) \<and>
   written_output = tostring written_env [] written_signed (Xml True False) \<and>
   tag written_signature = ds ''Signature'' \<and>
   children written_signed =
     take 2 (children example_root) @ written_signature # drop 2 (children example_root) \<and>
   length (children written_signed) = 4"
proof -
  from signature_placement_in_output
    [OF example_plain_tag written_assinar_xml written_parse example_find]
  obtain root' sig where
    st: "signed_tree written_env (Bytes written_document) ''rsa.pfx'' (Some ''segredo'')
      ''infDPS'' = Inr root'"
    and out: "written_output = tostring written_env [] root' (Xml True False)"
    and sig: "getnext root' 1 = Some sig"
    and tg: "tag sig = ds ''Signature''"
    by (elim exE conjE) (rule that)
  from st written_signed_tree have root': "root' = written_signed" by simp
  from sig root' written_getnext have sig': "sig = written_signature" by simp
  from out tg show ?thesis
    unfolding root' sig'
    using example_plain_tag written_assinar_xml written_parse example_find written_children(1,3)
    by (intro conjI)
qed

text \<open>
  Claim C6, as the source has it. The locator searches the children of the
  document root only. When at least one child has the name
  \<^verbatim>\<open>{namespace}tag\<close> the search succeeds and returns the first such child in
  document order, and signing does not fail with the not-found error; when no
  child has the name the search returns nothing and the locator fails with the
  not-found error. A matching element deeper in the tree is not found: in the
  counterexample the only match is a grandchild of the root.
\<close>

theorem locator_first_direct_child:
  assumes "plain_tag tag_to_sign"
  shows "((\<exists>c\<in>set (children root). tag c = clark NS_NFSE tag_to_sign) \<longrightarrow>
        (\<exists>i. element_find root (''ns:'' @ tag_to_sign) ns_nfse = Inr (Some i) \<and>
             i < length (children root) \<and>
             tag (children root ! i) = clark NS_NFSE tag_to_sign \<and>
             (\<forall>j<i. tag (children root ! j) \<noteq> clark NS_NFSE tag_to_sign)) \<and>
        locate root tag_to_sign \<noteq> Inl (ValueError (msg_nao_encontrado tag_to_sign))) \<and>
     ((\<forall>c\<in>set (children root). tag c \<noteq> clark NS_NFSE tag_to_sign) \<longrightarrow>
        element_find root (''ns:'' @ tag_to_sign) ns_nfse = Inr None \<and>
        locate root tag_to_sign = Inl (ValueError (msg_nao_encontrado tag_to_sign)))"
proof (intro conjI impI)
  assume ex: "\<exists>c\<in>set (children root). tag c = clark NS_NFSE tag_to_sign"
  then have "first_child (clark NS_NFSE tag_to_sign) (children root) \<noteq> None"
    by (simp add: first_child_None_iff)
  then obtain i where i: "first_child (clark NS_NFSE tag_to_sign) (children root) = Some i"
    by blast
  then show "\<exists>i. element_find root (''ns:'' @ tag_to_sign) ns_nfse = Inr (Some i) \<and>
             i < length (children root) \<and>
             tag (children root ! i) = clark NS_NFSE tag_to_sign \<and>
             (\<forall>j<i. tag (children root ! j) \<noteq> clark NS_NFSE tag_to_sign)"
    using first_child_Some_iff [of "clark NS_NFSE tag_to_sign" "children root" i]
    by (intro exI [of _ i]) (simp add: element_find_ns [simplified])
  from i show "locate root tag_to_sign \<noteq> Inl (ValueError (msg_nao_encontrado tag_to_sign))"
    using messages_differ [of tag_to_sign]
    by (simp add: locate_def element_find_ns [simplified] split: option.splits)
next
  assume "\<forall>c\<in>set (children root). tag c \<noteq> clark NS_NFSE tag_to_sign"
  then have none: "first_child (clark NS_NFSE tag_to_sign) (children root) = None"
    by (simp add: first_child_None_iff)
  then show "element_find root (''ns:'' @ tag_to_sign) ns_nfse = Inr None"
    by (simp add: element_find_ns [simplified])
  from none show "locate root tag_to_sign = Inl (ValueError (msg_nao_encontrado tag_to_sign))"
    by (simp add: locate_def element_find_ns [simplified])
qed

theorem locator_first_direct_child_witness:
  "plain_tag ''infDPS'' \<and>
   clark NS_NFSE ''infDPS'' \<in> set (map tag (children example_root)) \<and>
   (\<exists>i. element_find example_root (''ns:'' @ ''infDPS'') ns_nfse = Inr (Some i) \<and>
        tag (children example_root ! i) = clark NS_NFSE ''infDPS'') \<and>
   clark NS_NFSE ''infDPS'' \<notin> set (map tag (children nested_root)) \<and>
   element_find nested_root (''ns:'' @ ''infDPS'') ns_nfse = Inr None"
proof -
  have a: "clark NS_NFSE ''infDPS'' \<in> set (map tag (children example_root))"
    by (simp add: example_root_def example_target_def)
  have a': "\<exists>c\<in>set (children example_root). tag c = clark NS_NFSE ''infDPS''"
    by (simp add: example_root_def example_target_def)
  have b: "clark NS_NFSE ''infDPS'' \<notin> set (map tag (children nested_root))"
    by (simp add: nested_root_def clark_eq_iff)
  have b': "\<forall>c\<in>set (children nested_root). tag c \<noteq> clark NS_NFSE ''infDPS''"
    by (simp add: nested_root_def clark_eq_iff)
  from locator_first_direct_child [OF example_plain_tag, of example_root, THEN conjunct1, THEN mp, OF a']
  have c: "\<exists>i. element_find example_root (''ns:'' @ ''infDPS'') ns_nfse = Inr (Some i) \<and>
        tag (children example_root ! i) = clark NS_NFSE ''infDPS''"
    by (elim exE conjE) (rule exI, erule conjI)
  from locator_first_direct_child [OF example_plain_tag, of nested_root, THEN conjunct2, THEN mp, OF b']
  have d: "element_find nested_root (''ns:'' @ ''infDPS'') ns_nfse = Inr None"
    by (rule conjunct1)
  from a b c d show ?thesis
    using example_plain_tag by (intro conjI)
qed

theorem locator_descendant_counterexample:
  "clark NS_NFSE ''infDPS'' \<in> set (map tag (iterdescendants nested_root)) \<and>
   element_find nested_root (''ns:'' @ ''infDPS'') ns_nfse = Inr None \<and>
   assinar_xml example_env (Bytes ''<nested>'') ''rsa.pfx'' (Some ''segredo'') ''infDPS'' =
     Inl (ValueError (msg_nao_encontrado ''infDPS''))"
proof -
  have p: "fromstring example_env (xml_bytes (Bytes ''<nested>'')) = Inr nested_root"
    by (simp add: example_env_def example_documents_def)
  have f: "first_child (clark NS_NFSE ''infDPS'') (children nested_root) = None"
    by (simp add: nested_root_def clark_eq_iff)
  then have l: "locate nested_root ''infDPS'' = Inl (ValueError (msg_nao_encontrado ''infDPS''))"
    by (simp add: locate_def element_find_ns [simplified])
  have "clark NS_NFSE ''infDPS'' \<in> set (map tag (iterdescendants nested_root))"
    by (simp add: nested_root_def example_target_def)
  with f show ?thesis
    using locate_fails [OF example_load p l] by (simp add: element_find_ns [simplified])
qed

text \<open>
  Claim C7. With a loaded credential and a parsed document: when no child of
  the root has the name \<^verbatim>\<open>{namespace}tag\<close> (in particular when no element of the
  document has it) the call fails with the \<^verbatim>\<open>ValueError\<close> of line 79, the
  element-not-found error; when the located element has no \<^verbatim>\<open>Id\<close> attribute or
  an empty one the call fails with the \<^verbatim>\<open>ValueError\<close> of line 86, the
  missing-Id error. The two errors differ, and a failing call returns no
  document.
\<close>

theorem locator_errors:
  assumes "plain_tag tag_to_sign"
    and "load_credential env pfx_path pfx_password = Inr (k, c)"
    and "fromstring env (xml_bytes xml_in) = Inr root"
  shows "((\<forall>e\<in>set (children root). tag e \<noteq> clark NS_NFSE tag_to_sign) \<longrightarrow>
        assinar_xml env xml_in pfx_path pfx_password tag_to_sign =
          Inl (ValueError (msg_nao_encontrado tag_to_sign))) \<and>
     (\<forall>i. element_find root (''ns:'' @ tag_to_sign) ns_nfse = Inr (Some i) \<and>
          (element_get (children root ! i) ''Id'' = None \<or>
           element_get (children root ! i) ''Id'' = Some []) \<longrightarrow>
        assinar_xml env xml_in pfx_path pfx_password tag_to_sign =
          Inl (ValueError (msg_id_ausente tag_to_sign))) \<and>
     msg_nao_encontrado tag_to_sign \<noteq> msg_id_ausente tag_to_sign"
proof (intro conjI impI allI)
  assume "\<forall>e\<in>set (children root). tag e \<noteq> clark NS_NFSE tag_to_sign"
  then have "first_child (clark NS_NFSE tag_to_sign) (children root) = None"
    by (simp add: first_child_None_iff)
  then have "locate root tag_to_sign = Inl (ValueError (msg_nao_encontrado tag_to_sign))"
    by (simp add: locate_def element_find_ns [simplified])
  with assms(2,3) show "assinar_xml env xml_in pfx_path pfx_password tag_to_sign =
      Inl (ValueError (msg_nao_encontrado tag_to_sign))"
    by (rule locate_fails)
next
  fix i
  assume "element_find root (''ns:'' @ tag_to_sign) ns_nfse = Inr (Some i) \<and>
          (element_get (children root ! i) ''Id'' = None \<or>
           element_get (children root ! i) ''Id'' = Some [])"
  then have "locate root tag_to_sign = Inl (ValueError (msg_id_ausente tag_to_sign))"
    by (auto simp: locate_def)
  with assms(2,3) show "assinar_xml env xml_in pfx_path pfx_password tag_to_sign =
      Inl (ValueError (msg_id_ausente tag_to_sign))"
    by (rule locate_fails)
next
  show "msg_nao_encontrado tag_to_sign \<noteq> msg_id_ausente tag_to_sign"
    by (rule messages_differ)
qed

theorem locator_errors_witness:
  "plain_tag ''infDPS'' \<and>
   load_credential example_env ''rsa.pfx'' (Some ''segredo'') = Inr (RSAPrivateKey 7, 1) \<and>
   clark NS_NFSE ''infDPS'' \<notin> set (map tag (children no_match_root)) \<and>
   assinar_xml example_env (Bytes ''<no-match>'') ''rsa.pfx'' (Some ''segredo'') ''infDPS'' =
     Inl (ValueError (msg_nao_encontrado ''infDPS'')) \<and>
   element_find no_id_root (''ns:'' @ ''infDPS'') ns_nfse = Inr (Some 0) \<and>
   element_get (children no_id_root ! 0) ''Id'' = None \<and>
   assinar_xml example_env (Bytes ''<no-id>'') ''rsa.pfx'' (Some ''segredo'') ''infDPS'' =
     Inl (ValueError (msg_id_ausente ''infDPS'')) \<and>
   element_find empty_id_root (''ns:'' @ ''infDPS'') ns_nfse = Inr (Some 0) \<and>
   element_get (children empty_id_root ! 0) ''Id'' = Some [] \<and>
   assinar_xml example_env (Bytes ''<empty-id>'') ''rsa.pfx'' (Some ''segredo'') ''infDPS'' =
     Inl (ValueError (msg_id_ausente ''infDPS''))"
proof -
  have a0: "clark NS_NFSE ''infDPS'' \<notin> set (map tag (children no_match_root))"
    by (simp add: no_match_root_def clark_def)
  have a: "\<forall>e\<in>set (children no_match_root). tag e \<noteq> clark NS_NFSE ''infDPS''"
    by (simp add: no_match_root_def clark_def)
  have b: "element_find no_id_root (''ns:'' @ ''infDPS'') ns_nfse = Inr (Some 0)"
    "element_get (children no_id_root ! 0) ''Id'' = None"
    by (simp_all add: element_find_ns [simplified] no_id_root_def element_get_def)
  have c: "element_find empty_id_root (''ns:'' @ ''infDPS'') ns_nfse = Inr (Some 0)"
    "element_get (children empty_id_root ! 0) ''Id'' = Some []"
    by (simp_all add: element_find_ns [simplified] empty_id_root_def element_get_def)
  note t = locator_errors [OF example_plain_tag example_load]
  from t [OF example_parse_others(1)] a
  have 1: "assinar_xml example_env (Bytes ''<no-match>'') ''rsa.pfx'' (Some ''segredo'') ''infDPS'' =
     Inl (ValueError (msg_nao_encontrado ''infDPS''))"
    by (elim conjE) (erule (1) mp)
  from t [OF example_parse_others(2), THEN conjunct2, THEN conjunct1, THEN spec, of 0] b
  have 2: "assinar_xml example_env (Bytes ''<no-id>'') ''rsa.pfx'' (Some ''segredo'') ''infDPS'' =
     Inl (ValueError (msg_id_ausente ''infDPS''))"
    by (elim impE) (intro conjI disjI1, assumption+)
  from t [OF example_parse_others(3), THEN conjunct2, THEN conjunct1, THEN spec, of 0] c
  have 3: "assinar_xml example_env (Bytes ''<empty-id>'') ''rsa.pfx'' (Some ''segredo'') ''infDPS'' =
     Inl (ValueError (msg_id_ausente ''infDPS''))"
    by (elim impE) (intro conjI disjI2, assumption+)
  from a0 b c 1 2 3 show ?thesis
    using example_plain_tag example_load by (intro conjI)
qed

text \<open>
  Claim C8. Once the PKCS#12 bytes are read: when the library cannot parse the
  container or rejects the passphrase, its exception is the result of the
  call; when it returns no private key or no certificate, the call fails with
  the \<^verbatim>\<open>ValueError\<close> of line 55. In each case the result is the same for every
  XML input and tag and whatever the XML parser and serialiser would do, so the
  failure comes before any XML is processed. A credential is returned only
  when the library returned both a key and a certificate.
\<close>

theorem credential_errors:
  assumes "read_file env pfx_path = Inr pfx_data"
  shows "(\<forall>e. load_key_and_certificates env pfx_data (pkcs12_password pfx_password) = Inl e \<longrightarrow>
        (\<forall>xml_in tag_to_sign fs ts.
           assinar_xml (env\<lparr>fromstring := fs, tostring := ts\<rparr>)
             xml_in pfx_path pfx_password tag_to_sign = Inl e)) \<and>
     (\<forall>k c cs.
        load_key_and_certificates env pfx_data (pkcs12_password pfx_password) = Inr (k, c, cs) \<and>
        (k = None \<or> c = None) \<longrightarrow>
        (\<forall>xml_in tag_to_sign fs ts.
           assinar_xml (env\<lparr>fromstring := fs, tostring := ts\<rparr>)
             xml_in pfx_path pfx_password tag_to_sign = Inl (ValueError msg_pfx_invalido))) \<and>
     (\<forall>k c. load_credential env pfx_path pfx_password = Inr (k, c) \<longrightarrow>
        (\<exists>cs. load_key_and_certificates env pfx_data (pkcs12_password pfx_password) =
           Inr (Some k, Some c, cs)))"
proof (intro conjI allI impI)
  fix e xml_in tag_to_sign fs ts
  assume "load_key_and_certificates env pfx_data (pkcs12_password pfx_password) = Inl e"
  then have "load_credential env pfx_path pfx_password = Inl e"
    by (simp add: load_credential_cases [OF assms])
  then show "assinar_xml (env\<lparr>fromstring := fs, tostring := ts\<rparr>)
      xml_in pfx_path pfx_password tag_to_sign = Inl e"
    by (intro load_credential_fails) (simp add: load_credential_xml_update)
next
  fix k c cs xml_in tag_to_sign fs ts
  assume "load_key_and_certificates env pfx_data (pkcs12_password pfx_password) = Inr (k, c, cs) \<and>
        (k = None \<or> c = None)"
  then have "load_credential env pfx_path pfx_password = Inl (ValueError msg_pfx_invalido)"
    by (auto simp: load_credential_cases [OF assms] split: option.splits)
  then show "assinar_xml (env\<lparr>fromstring := fs, tostring := ts\<rparr>)
      xml_in pfx_path pfx_password tag_to_sign = Inl (ValueError msg_pfx_invalido)"
    by (intro load_credential_fails) (simp add: load_credential_xml_update)
next
  fix k c
  assume "load_credential env pfx_path pfx_password = Inr (k, c)"
  then show "\<exists>cs. load_key_and_certificates env pfx_data (pkcs12_password pfx_password) =
      Inr (Some k, Some c, cs)"
    by (auto simp: load_credential_cases [OF assms] split: sum.splits prod.splits option.splits)
qed

theorem credential_errors_witness:
  "read_file example_env ''empty.pfx'' = Inr [] \<and>
   load_key_and_certificates example_env [] (pkcs12_password (Some ''segredo'')) =
     Inl (ValueError ''Could not deserialize PKCS12 data'') \<and>
   assinar_xml example_env (Bytes ''<DPS>'') ''empty.pfx'' (Some ''segredo'') ''infDPS'' =
     Inl (ValueError ''Could not deserialize PKCS12 data'') \<and>
   assinar_xml example_env (Bytes ''<DPS>'') ''rsa.pfx'' (Some ''errada'') ''infDPS'' =
     Inl (ValueError ''Invalid password or PKCS12 data'') \<and>
   load_key_and_certificates example_env ''PFX-NO-KEY'' (pkcs12_password None) =
     Inr (None, Some 1, []) \<and>
   assinar_xml example_env (Bytes ''<DPS>'') ''no-key.pfx'' None ''infDPS'' =
     Inl (ValueError msg_pfx_invalido) \<and>
   load_key_and_certificates example_env ''PFX-NO-CERT'' (pkcs12_password None) =
     Inr (Some (RSAPrivateKey 7), None, []) \<and>
   assinar_xml example_env (Bytes ''<DPS>'') ''no-cert.pfx'' None ''infDPS'' =
     Inl (ValueError msg_pfx_invalido) \<and>
   load_credential example_env ''rsa.pfx'' (Some ''segredo'') = Inr (RSAPrivateKey 7, 1) \<and>
   (\<exists>cs. load_key_and_certificates example_env ''PFX-RSA'' (pkcs12_password (Some ''segredo'')) =
      Inr (Some (RSAPrivateKey 7), Some 1, cs))"
proof -
  from credential_errors [OF example_files_read(1), of "Some ''segredo''",
      THEN conjunct1, THEN spec, THEN mp, OF example_pkcs12(1)]
  have "assinar_xml
      (example_env\<lparr>fromstring := fromstring example_env, tostring := tostring example_env\<rparr>)
      (Bytes ''<DPS>'') ''empty.pfx'' (Some ''segredo'') ''infDPS'' =
     Inl (ValueError ''Could not deserialize PKCS12 data'')"
    by (elim allE)
  then have 1: "assinar_xml example_env (Bytes ''<DPS>'') ''empty.pfx'' (Some ''segredo'') ''infDPS'' =
     Inl (ValueError ''Could not deserialize PKCS12 data'')"
    by (simp only: env_xml_update_same)
  from credential_errors [OF example_files_read(2), of "Some ''errada''",
      THEN conjunct1, THEN spec, THEN mp, OF example_pkcs12(2)]
  have "assinar_xml
      (example_env\<lparr>fromstring := fromstring example_env, tostring := tostring example_env\<rparr>)
      (Bytes ''<DPS>'') ''rsa.pfx'' (Some ''errada'') ''infDPS'' =
     Inl (ValueError ''Invalid password or PKCS12 data'')"
    by (elim allE)
  then have 2: "assinar_xml example_env (Bytes ''<DPS>'') ''rsa.pfx'' (Some ''errada'') ''infDPS'' =
     Inl (ValueError ''Invalid password or PKCS12 data'')"
    by (simp only: env_xml_update_same)
  from credential_errors [OF example_files_read(3), of None,
      THEN conjunct2, THEN conjunct1, THEN spec, THEN spec, THEN spec, THEN mp,
      OF conjI, OF example_pkcs12(3) disjI1, OF refl]
  have "assinar_xml
      (example_env\<lparr>fromstring := fromstring example_env, tostring := tostring example_env\<rparr>)
      (Bytes ''<DPS>'') ''no-key.pfx'' None ''infDPS'' =
     Inl (ValueError msg_pfx_invalido)"
    by (elim allE)
  then have 3: "assinar_xml example_env (Bytes ''<DPS>'') ''no-key.pfx'' None ''infDPS'' =
     Inl (ValueError msg_pfx_invalido)"
    by (simp only: env_xml_update_same)
  from credential_errors [OF example_files_read(4), of None,
      THEN conjunct2, THEN conjunct1, THEN spec, THEN spec, THEN spec, THEN mp,
      OF conjI, OF example_pkcs12(4) disjI2, OF refl]
  have "assinar_xml
      (example_env\<lparr>fromstring := fromstring example_env, tostring := tostring example_env\<rparr>)
      (Bytes ''<DPS>'') ''no-cert.pfx'' None ''infDPS'' =
     Inl (ValueError msg_pfx_invalido)"
    by (elim allE)
  then have 4: "assinar_xml example_env (Bytes ''<DPS>'') ''no-cert.pfx'' None ''infDPS'' =
     Inl (ValueError msg_pfx_invalido)"
    by (simp only: env_xml_update_same)
  from credential_errors [OF example_files_read(2), of "Some ''segredo''",
      THEN conjunct2, THEN conjunct2, THEN spec, THEN spec, THEN mp, OF example_load]
  have 5: "\<exists>cs. load_key_and_certificates example_env ''PFX-RSA''
      (pkcs12_password (Some ''segredo'')) = Inr (Some (RSAPrivateKey 7), Some 1, cs)" .
  from 1 2 3 4 5 show ?thesis
    using example_files_read(1) example_pkcs12(1,3,4) example_load by (intro conjI)
qed

text \<open>
  Claim C9, as the source has it. The source makes no test of the key before
  signing. It calls \<^verbatim>\<open>private_key.sign\<close> on the canonical bytes of SignedInfo
  with PKCS#1 v1.5 padding and SHA-1, and the outcome of that call decides: an
  exception raised by the call reaches the caller as it is and no document is
  returned, and when the call returns, the signing call returns a document. In
  the counterexample the key is an elliptic-curve key and the caller receives
  the \<^verbatim>\<open>TypeError\<close> of the call itself.
\<close>

theorem sign_outcome_decides:
  assumes "plain_tag tag_to_sign"
    and "load_credential env pfx_path pfx_password = Inr (k, c)"
    and "fromstring env (xml_bytes xml_in) = Inr root"
    and "locate root tag_to_sign = Inr (i, inf_id)"
    and "canonical_bytes env (nsmap root) (children root ! i) = Inr tc"
    and "canonical_bytes env [(None, NS_DS)]
           (SignedInfo_element inf_id (b64encode env (sha1 env tc))) = Inr sc"
  shows "(\<forall>e. sign env k sc = Inl e \<longrightarrow>
            assinar_xml env xml_in pfx_path pfx_password tag_to_sign = Inl e) \<and>
         (\<forall>sr. sign env k sc = Inr sr \<longrightarrow>
            (\<exists>out. assinar_xml env xml_in pfx_path pfx_password tag_to_sign = Inr out))"
  by (simp add: assinar_xml_sign_step [OF assms(2-6)])

theorem sign_outcome_decides_witness:
  "plain_tag ''infDPS'' \<and>
   load_credential example_env ''ec.pfx'' None = Inr (EllipticCurvePrivateKey 3, 2) \<and>
   fromstring example_env (xml_bytes (Bytes ''<DPS>'')) = Inr example_root \<and>
   locate example_root ''infDPS'' = Inr (1, ''DPS35a7B'') \<and>
   canonical_bytes example_env (nsmap example_root) (children example_root ! 1) =
     Inr ''c14n:{http://www.sped.fazenda.gov.br/nfse}infDPS'' \<and>
   sign example_env (EllipticCurvePrivateKey 3)
     ''c14n:{http://www.w3.org/2000/09/xmldsig#}SignedInfo'' =
     Inl (TypeError ''sign() takes 3 positional arguments but 4 were given'') \<and>
   assinar_xml example_env (Bytes ''<DPS>'') ''ec.pfx'' None ''infDPS'' =
     Inl (TypeError ''sign() takes 3 positional arguments but 4 were given'') \<and>
   sign example_env (RSAPrivateKey 7) ''c14n:{http://www.w3.org/2000/09/xmldsig#}SignedInfo'' =
     Inr ''rsa(c14n:{http://www.w3.org/2000/09/xmldsig#}SignedInfo)'' \<and>
   (\<exists>out. assinar_xml example_env (Bytes ''<DPS>'') ''rsa.pfx'' (Some ''segredo'') ''infDPS'' =
      Inr out)"
proof -
  have rsa: "sign example_env (RSAPrivateKey 7)
       ''c14n:{http://www.w3.org/2000/09/xmldsig#}SignedInfo'' =
     Inr ''rsa(c14n:{http://www.w3.org/2000/09/xmldsig#}SignedInfo)''"
    by (simp add: example_env_def)
  from sign_outcome_decides [OF example_plain_tag example_load_ec example_parse example_locate
      example_target_c14n example_signedinfo_c14n, THEN conjunct1, THEN spec, THEN mp,
      OF example_sign_ec]
  have 1: "assinar_xml example_env (Bytes ''<DPS>'') ''ec.pfx'' None ''infDPS'' =
     Inl (TypeError ''sign() takes 3 positional arguments but 4 were given'')" .
  from sign_outcome_decides [OF example_plain_tag example_load example_parse example_locate
      example_target_c14n example_signedinfo_c14n, THEN conjunct2, THEN spec, THEN mp, OF rsa]
  have 2: "\<exists>out. assinar_xml example_env (Bytes ''<DPS>'') ''rsa.pfx'' (Some ''segredo'')
      ''infDPS'' = Inr out" .
  from 1 2 rsa show ?thesis
    using example_plain_tag example_load_ec example_parse example_locate example_target_c14n
      example_sign_ec [of "''c14n:{http://www.w3.org/2000/09/xmldsig#}SignedInfo''"]
    by (intro conjI)
qed

theorem key_type_unchecked_counterexample:
  "load_credential example_env ''ec.pfx'' None = Inr (EllipticCurvePrivateKey 3, 2) \<and>
   sign example_env (EllipticCurvePrivateKey 3)
     ''c14n:{http://www.w3.org/2000/09/xmldsig#}SignedInfo'' =
     Inl (TypeError ''sign() takes 3 positional arguments but 4 were given'') \<and>
   assinar_xml example_env (Bytes ''<DPS>'') ''ec.pfx'' None ''infDPS'' =
     Inl (TypeError ''sign() takes 3 positional arguments but 4 were given'')"
proof -
  have "assinar_xml example_env (Bytes ''<DPS>'') ''ec.pfx'' None ''infDPS'' =
     Inl (TypeError ''sign() takes 3 positional arguments but 4 were given'')"
    by (simp add: assinar_xml_sign_step [OF example_load_ec example_parse example_locate
          example_target_c14n example_signedinfo_c14n] example_sign_ec)
  then show ?thesis
    using example_load_ec example_sign_ec by (intro conjI)
qed

text \<open>
  Claim C10. An empty passphrase and an absent one are the same to the signer:
  line 48 forwards both to the PKCS#12 parser as \<^verbatim>\<open>None\<close>, so the credential
  that is loaded and the result of the signing call are equal for every
  environment, PKCS#12 file, document and tag.
\<close>

theorem empty_password_is_none:
  "pkcs12_password (Some []) = None \<and> pkcs12_password None = None \<and>
   load_credential env pfx_path (Some []) = load_credential env pfx_path None \<and>
   assinar_xml env xml_in pfx_path (Some []) tag_to_sign =
     assinar_xml env xml_in pfx_path None tag_to_sign"
proof -
  have p: "pkcs12_password (Some []) = None" "pkcs12_password None = None"
    by (simp_all add: pkcs12_password_def)
  have l: "load_credential env pfx_path (Some []) = load_credential env pfx_path None"
    unfolding load_credential_def p by (rule refl)
  have "assinar_xml env xml_in pfx_path (Some []) tag_to_sign =
     assinar_xml env xml_in pfx_path None tag_to_sign"
    unfolding assinar_xml_def signed_tree_def l by (rule refl)
  with p l show ?thesis by (intro conjI)
qed

end
